theory Spec2Isabelle
  imports Complex_Main "HOL-Library.Multiset"
begin

section \<open>Python floats\<close>

text \<open>
  Every amount, timestamp and rate of \<^verbatim>\<open>main.py\<close> is a Python \<^verbatim>\<open>float\<close>
  (an IEEE-754 binary64 number) and every REAL column of the table holds one.
  A finite float is modelled by the rational number it denotes, the result of an
  operation by the correctly rounded exact result. The sign of a zero is not modelled:
  the program never divides by a variable, and no comparison tells the two zeros apart.
\<close>

datatype pyfloat = Fin rat | PInf | NInf | NaN

text \<open>
  Rounding a positive rational to binary64, round-half-to-even: the value is scaled by
  powers of two until its integer part has 53 bits (or the exponent reaches the
  subnormal limit \<open>-1074\<close>), rounded to an integer, and scaled back.
\<close>

function norm_up :: "rat \<Rightarrow> int \<Rightarrow> rat \<times> int" where
  "norm_up a e = (if 9007199254740992 \<le> a then norm_up (a / 2) (e + 1) else (a, e))"
  by pat_completeness auto
termination
proof (relation "measure (\<lambda>(a, e). nat \<lceil>a\<rceil>)")
  show "wf (measure (\<lambda>(a::rat, e::int). nat \<lceil>a\<rceil>))" by simp
next
  fix a :: rat and e :: int
  assume big: "9007199254740992 \<le> a"
  have "a / 2 \<le> a - 1" using big by simp
  then have "\<lceil>a / 2\<rceil> \<le> \<lceil>a - 1\<rceil>" by (rule ceiling_mono)
  then have "\<lceil>a / 2\<rceil> < \<lceil>a\<rceil>" by simp
  moreover have "0 < \<lceil>a\<rceil>" using big by (simp add: ceiling_less_iff less_ceiling_iff)
  ultimately show "((a / 2, e + 1), (a, e)) \<in> measure (\<lambda>(a, e). nat \<lceil>a\<rceil>)"
    by simp
qed

function norm_down :: "rat \<Rightarrow> int \<Rightarrow> rat \<times> int" where
  "norm_down a e =
     (if a < 4503599627370496 \<and> - 1074 < e then norm_down (a * 2) (e - 1) else (a, e))"
  by pat_completeness auto
termination
  by (relation "measure (\<lambda>(a, e). nat (e + 1074))") auto

definition round_half_even :: "rat \<Rightarrow> int" where
  "round_half_even a =
     (let f = \<lfloor>a\<rfloor>; r = a - of_int f
      in if r < 1 / 2 then f else if 1 / 2 < r then f + 1
         else if even f then f else f + 1)"

definition pow2 :: "int \<Rightarrow> rat" where
  "pow2 e = (if 0 \<le> e then 2 ^ nat e else 1 / 2 ^ nat (- e))"

definition rnd_pos :: "rat \<Rightarrow> rat" where
  "rnd_pos a =
     (let (a1, e1) = norm_up a 0; (a2, e2) = norm_down a1 e1
      in of_int (round_half_even a2) * pow2 e2)"

definition rnd :: "rat \<Rightarrow> pyfloat" where
  "rnd x =
     (if x = 0 then Fin 0
      else let y = rnd_pos \<bar>x\<bar>
           in if 2 ^ 1024 \<le> y then (if 0 < x then PInf else NInf)
              else Fin (if 0 < x then y else - y))"


text \<open>
  The arithmetic of binary64: the exact result, rounded. \<open>inf - inf\<close> and
  \<open>0 * inf\<close> are NaN, and every comparison with NaN is false.
\<close>

fun fneg :: "pyfloat \<Rightarrow> pyfloat" where
  "fneg (Fin x) = Fin (- x)"
| "fneg PInf = NInf"
| "fneg NInf = PInf"
| "fneg NaN = NaN"

fun fadd :: "pyfloat \<Rightarrow> pyfloat \<Rightarrow> pyfloat" where
  "fadd (Fin x) (Fin y) = rnd (x + y)"
| "fadd NaN b = NaN"
| "fadd a NaN = NaN"
| "fadd PInf NInf = NaN"
| "fadd NInf PInf = NaN"
| "fadd PInf b = PInf"
| "fadd NInf b = NInf"
| "fadd a PInf = PInf"
| "fadd a NInf = NInf"

definition fsub :: "pyfloat \<Rightarrow> pyfloat \<Rightarrow> pyfloat" where
  "fsub a b = fadd a (fneg b)"

fun fmul :: "pyfloat \<Rightarrow> pyfloat \<Rightarrow> pyfloat" where
  "fmul (Fin x) (Fin y) = rnd (x * y)"
| "fmul NaN b = NaN"
| "fmul a NaN = NaN"
| "fmul (Fin x) b = (if x = 0 then NaN else if 0 < x then b else fneg b)"
| "fmul a (Fin y) = (if y = 0 then NaN else if 0 < y then a else fneg a)"
| "fmul a b = (if a = b then PInf else NInf)"

text \<open>Division by a positive literal (the program divides by 2, 100.0 and 1800 only).\<close>

fun fdiv_lit :: "pyfloat \<Rightarrow> rat \<Rightarrow> pyfloat" where
  "fdiv_lit (Fin x) c = rnd (x / c)"
| "fdiv_lit a c = a"

fun fle :: "pyfloat \<Rightarrow> pyfloat \<Rightarrow> bool" where
  "fle (Fin x) (Fin y) = (x \<le> y)"
| "fle NaN b = False"
| "fle a NaN = False"
| "fle NInf b = True"
| "fle a PInf = True"
| "fle a b = False"

definition flt :: "pyfloat \<Rightarrow> pyfloat \<Rightarrow> bool" where
  "flt a b = (fle a b \<and> a \<noteq> b)"

text \<open>The exceptions that leave a command handler uncaught.\<close>

datatype exn = ValueError | OverflowError | IntegrityError

text \<open>\<^verbatim>\<open>math.ceil\<close> raises on an infinity and on NaN.\<close>

fun py_ceil :: "pyfloat \<Rightarrow> exn + int" where
  "py_ceil (Fin x) = Inr \<lceil>x\<rceil>"
| "py_ceil NaN = Inl ValueError"
| "py_ceil a = Inl OverflowError"

text \<open>The conversion of an \<^verbatim>\<open>int\<close> operand in mixed arithmetic.\<close>

definition float_of_int :: "int \<Rightarrow> pyfloat" where
  "float_of_int n = rnd (of_int n)"

section \<open>Strings\<close>

text \<open>
  A character of the message text is a code point below 256. The decimal digits among
  them are \<open>0\<close> to \<open>9\<close>; \<^verbatim>\<open>str.isdigit\<close> also accepts the superscripts two, three
  and one (U+00B2, U+00B3, U+00B9), and asks for a string that is not empty.
\<close>

definition is_digit :: "char \<Rightarrow> bool" where
  "is_digit c = (c \<in> set ''0123456789'')"

definition digit_val :: "char \<Rightarrow> nat" where
  "digit_val c = of_char c - 48"

definition nat_of_digits :: "string \<Rightarrow> nat" where
  "nat_of_digits ds = foldl (\<lambda>n c. 10 * n + digit_val c) 0 ds"

definition isdigit_char :: "char \<Rightarrow> bool" where
  "isdigit_char c = (is_digit c \<or> of_char c \<in> {178, 179, 185 :: nat})"

definition str_isdigit :: "string \<Rightarrow> bool" where
  "str_isdigit s = (s \<noteq> [] \<and> list_all isdigit_char s)"

text \<open>
  \<^verbatim>\<open>str.split()\<close>: maximal runs of non-whitespace characters. The whitespace below 256
  is U+0009 to U+000D, U+001C to U+0020, U+0085 and U+00A0.
\<close>

definition is_space :: "char \<Rightarrow> bool" where
  "is_space c = (of_char c \<in> {9, 10, 11, 12, 13, 28, 29, 30, 31, 32, 133, 160 :: nat})"

fun split_acc :: "string \<Rightarrow> string \<Rightarrow> string list" where
  "split_acc w [] = (if w = [] then [] else [w])"
| "split_acc w (c # cs) =
     (if is_space c then (if w = [] then split_acc [] cs else w # split_acc [] cs)
      else split_acc (w @ [c]) cs)"

definition str_split :: "string \<Rightarrow> string list" where
  "str_split s = split_acc [] s"

definition str_endswith :: "string \<Rightarrow> char \<Rightarrow> bool" where
  "str_endswith s c = (s \<noteq> [] \<and> last s = c)"

definition str_strip :: "string \<Rightarrow> char \<Rightarrow> string" where
  "str_strip s c = rev (dropWhile (\<lambda>x. x = c) (rev (dropWhile (\<lambda>x. x = c) s)))"

text \<open>
  \<^verbatim>\<open>float(s)\<close> for a string without whitespace (the tokens of \<^verbatim>\<open>split()\<close> have
  none): an underscore may stand between two digits; then an optional sign and either a
  decimal number (digits, optional point, optional exponent, at least one digit before
  the exponent) or \<open>inf\<close>, \<open>infinity\<close>, \<open>nan\<close> in any case. The decimal value is
  rounded correctly. \<open>None\<close> is the \<^verbatim>\<open>ValueError\<close>.
\<close>

fun underscores_ok :: "char \<Rightarrow> string \<Rightarrow> bool" where
  "underscores_ok prev [] = (prev \<noteq> CHR ''_'')"
| "underscores_ok prev (c # cs) =
     ((if c = CHR ''_'' then is_digit prev else (prev = CHR ''_'' \<longrightarrow> is_digit c))
      \<and> underscores_ok c cs)"

definition pow10 :: "int \<Rightarrow> rat" where
  "pow10 e = (if 0 \<le> e then 10 ^ nat e else 1 / 10 ^ nat (- e))"

definition take_sign :: "string \<Rightarrow> bool \<times> string" where
  "take_sign s =
     (case s of [] \<Rightarrow> (False, [])
      | c # r \<Rightarrow> if c = CHR ''-'' then (True, r)
                 else if c = CHR ''+'' then (False, r) else (False, s))"

definition parse_exponent :: "string \<Rightarrow> int option" where
  "parse_exponent r =
     (case r of [] \<Rightarrow> Some 0
      | c # r1 \<Rightarrow>
          if c = CHR ''e'' \<or> c = CHR ''E'' then
            (let (neg, ds) = take_sign r1
             in if ds \<noteq> [] \<and> list_all is_digit ds
                then Some (if neg then - int (nat_of_digits ds) else int (nat_of_digits ds))
                else None)
          else None)"

definition parse_decimal :: "string \<Rightarrow> rat option" where
  "parse_decimal u =
     (let ip = takeWhile is_digit u; r1 = dropWhile is_digit u;
          (fp, r2) = (case r1 of [] \<Rightarrow> ([], [])
                      | c # r \<Rightarrow> if c = CHR ''.''
                                 then (takeWhile is_digit r, dropWhile is_digit r)
                                 else ([], r1))
      in if ip = [] \<and> fp = [] then None
         else case parse_exponent r2 of
                None \<Rightarrow> None
              | Some ex \<Rightarrow>
                  Some (of_nat (nat_of_digits (ip @ fp)) * pow10 (ex - int (length fp))))"

definition lower :: "char \<Rightarrow> char" where
  "lower c =
     (case map_of (zip ''ABCDEFGHIJKLMNOPQRSTUVWXYZ'' ''abcdefghijklmnopqrstuvwxyz'') c of
        Some l \<Rightarrow> l
      | None \<Rightarrow> c)"

definition float_of_str :: "string \<Rightarrow> pyfloat option" where
  "float_of_str s =
     (if \<not> underscores_ok (CHR 0x00) s then None
      else let (neg, u) = take_sign (filter (\<lambda>c. c \<noteq> CHR ''_'') s)
           in case parse_decimal u of
                Some x \<Rightarrow> Some (if neg then fneg (rnd x) else rnd x)
              | None \<Rightarrow>
                  (let l = map lower u
                   in if l = ''inf'' \<or> l = ''infinity''
                      then Some (if neg then NInf else PInf)
                      else if l = ''nan'' then Some NaN else None))"

section \<open>Configuration\<close>

definition HOURLY_FEE :: pyfloat where
  "HOURLY_FEE = Fin 6"

definition GRACE_PERIOD_SECONDS :: pyfloat where
  "GRACE_PERIOD_SECONDS = Fin 120"

definition ADMIN_IDS :: "string set" where
  "ADMIN_IDS = {''2331103944'', ''87654321''}"

definition FEE_PER_30_MINS :: pyfloat where
  "FEE_PER_30_MINS = fdiv_lit HOURLY_FEE 2"

section \<open>The table \<^verbatim>\<open>user_data\<close>\<close>

text \<open>
  One row per account; \<^verbatim>\<open>joined_at\<close> is the only REAL column that may be NULL. The
  table is the list of its rows in the order of their rowids: an INSERT appends a row,
  an UPDATE leaves it in its place. The primary key \<^verbatim>\<open>qq\<close> makes the keys distinct,
  which no definition below relies on.
\<close>

record user_row =
  qq :: string
  balance :: pyfloat
  joined_at :: "pyfloat option"
  total_time :: pyfloat
  today_date :: string
  today_consumption :: pyfloat
  discount :: pyfloat

type_synonym table = "user_row list"

text \<open>\<^verbatim>\<open>SELECT * FROM user_data WHERE qq=?\<close> with \<^verbatim>\<open>fetchone()\<close>.\<close>

definition select_qq :: "string \<Rightarrow> table \<Rightarrow> user_row option" where
  "select_qq q T = find (\<lambda>r. qq r = q) T"

text \<open>\<^verbatim>\<open>UPDATE user_data SET ... WHERE qq=?\<close>.\<close>

definition update_where :: "string \<Rightarrow> (user_row \<Rightarrow> user_row) \<Rightarrow> table \<Rightarrow> table" where
  "update_where q f T = map (\<lambda>r. if qq r = q then f r else r) T"

text \<open>
  \<^verbatim>\<open>_get_user\<close>: get or create, then the daily rollover. \<open>today\<close> is the value of
  \<^verbatim>\<open>date.today().isoformat()\<close>. Both the INSERT and the rollover UPDATE are committed
  when the call returns.
\<close>

definition get_user :: "string \<Rightarrow> string \<Rightarrow> table \<Rightarrow> user_row \<times> table" where
  "get_user today q T =
     (let (user, T1) =
            (case select_qq q T of
               Some row \<Rightarrow> (row, T)
             | None \<Rightarrow>
                 (let u = \<lparr>qq = q, balance = Fin 0, joined_at = None, total_time = Fin 0,
                           today_date = today, today_consumption = Fin 0,
                           discount = Fin 1\<rparr>
                  in (u, T @ [u])))
      in if today_date user \<noteq> today
         then (user\<lparr>today_date := today, today_consumption := Fin 0\<rparr>,
               update_where q (\<lambda>r. r\<lparr>today_date := today, today_consumption := Fin 0\<rparr>) T1)
         else (user, T1))"

text \<open>
  The \<^verbatim>\<open>updates\<close> dictionary of \<^verbatim>\<open>_update_user\<close>, as the list of its items.
\<close>

datatype field_upd =
    Balance pyfloat
  | JoinedAt "pyfloat option"
  | TotalTime pyfloat
  | TodayConsumption pyfloat
  | Discount pyfloat

fun apply_upd :: "user_row \<Rightarrow> field_upd \<Rightarrow> user_row" where
  "apply_upd u (Balance v) = u\<lparr>balance := v\<rparr>"
| "apply_upd u (JoinedAt v) = u\<lparr>joined_at := v\<rparr>"
| "apply_upd u (TotalTime v) = u\<lparr>total_time := v\<rparr>"
| "apply_upd u (TodayConsumption v) = u\<lparr>today_consumption := v\<rparr>"
| "apply_upd u (Discount v) = u\<lparr>discount := v\<rparr>"

text \<open>
  SQLite stores a NaN bound to a parameter as NULL. For \<^verbatim>\<open>joined_at\<close> that is a
  legal value; the other REAL columns are NOT NULL, so the UPDATE raises
  \<^verbatim>\<open>sqlite3.IntegrityError\<close> and \<^verbatim>\<open>with self.conn\<close> rolls the transaction back.
\<close>

definition sql_real :: "pyfloat option \<Rightarrow> pyfloat option" where
  "sql_real v = (if v = Some NaN then None else v)"

definition not_null_ok :: "user_row \<Rightarrow> bool" where
  "not_null_ok u =
     (balance u \<noteq> NaN \<and> total_time u \<noteq> NaN \<and> today_consumption u \<noteq> NaN \<and> discount u \<noteq> NaN)"

text \<open>
  \<^verbatim>\<open>_update_user\<close>: load the row, merge the updates, write every column back, return
  the merged dictionary. A \<^verbatim>\<open>qq\<close> without a row raises \<^verbatim>\<open>ValueError\<close>.
\<close>

definition update_user :: "string \<Rightarrow> field_upd list \<Rightarrow> table \<Rightarrow> (exn + user_row) \<times> table" where
  "update_user q updates T =
     (case select_qq q T of
        None \<Rightarrow> (Inl ValueError, T)
      | Some row \<Rightarrow>
          (let user = foldl apply_upd row updates
           in if \<not> not_null_ok user then (Inl IntegrityError, T)
              else (Inr user,
                    update_where (qq user)
                      (\<lambda>r. r\<lparr>balance := balance user, joined_at := sql_real (joined_at user),
                              total_time := total_time user, today_date := today_date user,
                              today_consumption := today_consumption user,
                              discount := discount user\<rparr>) T)))"

section \<open>The plugin and its commands\<close>

record plugin =
  initialized_successfully :: bool
  conn :: table

text \<open>
  What a handler returns to the framework. The texts are formatted from the values
  carried here.
\<close>

datatype admin_kind = Charge | Deduct

datatype reply =
    ServiceError
  | NoUid
  | AlreadyAttending
  | AttendOk pyfloat
  | NotAttending
  | Waived
  | InsufficientBalance pyfloat pyfloat
  | LeaveOk pyfloat pyfloat pyfloat pyfloat
  | PermissionDenied
  | UsageError
  | QQFormatError
  | AmountFormatError
  | DeductInsufficient pyfloat pyfloat
  | AdminOk admin_kind string pyfloat pyfloat
  | DiscountFormatError
  | DiscountOk string pyfloat
  | RankEmpty
  | Rank "(string \<times> pyfloat) list"

type_synonym outcome = "(exn + reply) \<times> plugin"

text \<open>
  A handler takes what it reads from its environment as arguments: \<open>today\<close> (the
  local date), \<open>now\<close> (\<^verbatim>\<open>time.time()\<close>), \<open>uid\<close> (\<^verbatim>\<open>_get_uid(evt)\<close>) and the
  message text.
\<close>

definition cmd_attend :: "string \<Rightarrow> pyfloat \<Rightarrow> string \<Rightarrow> plugin \<Rightarrow> outcome" where
  "cmd_attend today now uid P =
     (if \<not> initialized_successfully P then (Inr ServiceError, P)
      else if uid = [] then (Inr NoUid, P)
      else let (user, T1) = get_user today uid (conn P)
           in if joined_at user \<noteq> None then (Inr AlreadyAttending, P\<lparr>conn := T1\<rparr>)
              else case update_user uid [JoinedAt (Some now)] T1 of
                     (Inl e, T2) \<Rightarrow> (Inl e, P\<lparr>conn := T2\<rparr>)
                   | (Inr u, T2) \<Rightarrow> (Inr (AttendOk (balance user)), P\<lparr>conn := T2\<rparr>))"

text \<open>Lines 245 to 247: the fee of a session that is not waived.\<close>

definition final_fee :: "pyfloat \<Rightarrow> pyfloat \<Rightarrow> exn + pyfloat" where
  "final_fee duration disc =
     (case py_ceil (fdiv_lit duration 1800) of
        Inl e \<Rightarrow> Inl e
      | Inr billing_units \<Rightarrow>
          (let base_fee = fmul (float_of_int billing_units) FEE_PER_30_MINS
           in Inr (fmul base_fee disc)))"

definition cmd_leave :: "string \<Rightarrow> pyfloat \<Rightarrow> string \<Rightarrow> plugin \<Rightarrow> outcome" where
  "cmd_leave today now uid P =
     (if \<not> initialized_successfully P then (Inr ServiceError, P)
      else if uid = [] then (Inr NoUid, P)
      else let (user, T1) = get_user today uid (conn P)
           in case joined_at user of
                None \<Rightarrow> (Inr NotAttending, P\<lparr>conn := T1\<rparr>)
              | Some j \<Rightarrow>
                  (let duration = fsub now j
                   in if fle duration GRACE_PERIOD_SECONDS then
                        (case update_user uid [JoinedAt None] T1 of
                           (Inl e, T2) \<Rightarrow> (Inl e, P\<lparr>conn := T2\<rparr>)
                         | (Inr u, T2) \<Rightarrow> (Inr Waived, P\<lparr>conn := T2\<rparr>))
                      else
                        (case final_fee duration (discount user) of
                           Inl e \<Rightarrow> (Inl e, P\<lparr>conn := T1\<rparr>)
                         | Inr fee \<Rightarrow>
                             if flt (balance user) fee
                             then (Inr (InsufficientBalance fee (balance user)), P\<lparr>conn := T1\<rparr>)
                             else
                               (case update_user uid
                                       [Balance (fsub (balance user) fee),
                                        TodayConsumption (fadd (today_consumption user) fee),
                                        TotalTime (fadd (total_time user) duration),
                                        JoinedAt None] T1 of
                                  (Inl e, T2) \<Rightarrow> (Inl e, P\<lparr>conn := T2\<rparr>)
                                | (Inr updated_user, T2) \<Rightarrow>
                                    (Inr (LeaveOk duration fee
                                            (today_consumption updated_user)
                                            (balance updated_user)),
                                     P\<lparr>conn := T2\<rparr>)))))"


text \<open>
  \<^verbatim>\<open>_admin_op\<close>. The validation of the target and of the amount comes before the
  first access to the table. \<open>float\<close> raising and \<open>amount <= 0\<close> give the same reply.
\<close>

definition admin_write :: "admin_kind \<Rightarrow> string \<Rightarrow> pyfloat \<Rightarrow> pyfloat \<Rightarrow> table \<Rightarrow> (exn + reply) \<times> table" where
  "admin_write op_type target_qq amount new_balance T1 =
     (case update_user target_qq [Balance new_balance] T1 of
        (Inl e, T2) \<Rightarrow> (Inl e, T2)
      | (Inr updated_user, T2) \<Rightarrow>
          (Inr (AdminOk op_type target_qq amount (balance updated_user)), T2))"

definition admin_op :: "string \<Rightarrow> string \<Rightarrow> string \<Rightarrow> admin_kind \<Rightarrow> table \<Rightarrow> (exn + reply) \<times> table" where
  "admin_op today op_qq message_str op_type T =
     (if op_qq \<notin> ADMIN_IDS then (Inr PermissionDenied, T)
      else let parts = str_split message_str
           in if length parts \<noteq> 3 then (Inr UsageError, T)
              else let target_qq = parts ! 1; amount_str = parts ! 2
                   in if \<not> str_isdigit target_qq then (Inr QQFormatError, T)
                      else case float_of_str amount_str of
                             None \<Rightarrow> (Inr AmountFormatError, T)
                           | Some amount \<Rightarrow>
                               if fle amount (Fin 0) then (Inr AmountFormatError, T)
                               else
                                 (let (user, T1) = get_user today target_qq T
                                  in case op_type of
                                       Charge \<Rightarrow>
                                         admin_write op_type target_qq amount
                                           (fadd (balance user) amount) T1
                                     | Deduct \<Rightarrow>
                                         if flt (balance user) amount
                                         then (Inr (DeductInsufficient (balance user) amount), T1)
                                         else admin_write op_type target_qq amount
                                                (fsub (balance user) amount) T1))"

definition cmd_charge :: "string \<Rightarrow> string \<Rightarrow> string \<Rightarrow> plugin \<Rightarrow> outcome" where
  "cmd_charge today op_qq message_str P =
     (if \<not> initialized_successfully P then (Inr ServiceError, P)
      else let (r, T) = admin_op today op_qq message_str Charge (conn P)
           in (r, P\<lparr>conn := T\<rparr>))"

definition cmd_deduct :: "string \<Rightarrow> string \<Rightarrow> string \<Rightarrow> plugin \<Rightarrow> outcome" where
  "cmd_deduct today op_qq message_str P =
     (if \<not> initialized_successfully P then (Inr ServiceError, P)
      else let (r, T) = admin_op today op_qq message_str Deduct (conn P)
           in (r, P\<lparr>conn := T\<rparr>))"

text \<open>Lines 389 to 392: the number a discount token stands for; \<open>None\<close> is the \<^verbatim>\<open>ValueError\<close>.\<close>

definition parse_rate :: "string \<Rightarrow> pyfloat option" where
  "parse_rate discount_str =
     (if str_endswith discount_str (CHR ''%'')
      then map_option (\<lambda>x. fdiv_lit x 100) (float_of_str (str_strip discount_str (CHR ''%'')))
      else float_of_str discount_str)"

definition cmd_discount :: "string \<Rightarrow> string \<Rightarrow> string \<Rightarrow> plugin \<Rightarrow> outcome" where
  "cmd_discount today op_qq message_str P =
     (if \<not> initialized_successfully P then (Inr ServiceError, P)
      else if op_qq \<notin> ADMIN_IDS then (Inr PermissionDenied, P)
      else let parts = str_split message_str
           in if length parts \<noteq> 3 then (Inr UsageError, P)
              else let target_qq = parts ! 1; discount_str = parts ! 2
                   in if \<not> str_isdigit target_qq then (Inr QQFormatError, P)
                      else case parse_rate discount_str of
                             None \<Rightarrow> (Inr DiscountFormatError, P)
                           | Some rate \<Rightarrow>
                               if \<not> (flt (Fin 0) rate \<and> fle rate (Fin 1))
                               then (Inr DiscountFormatError, P)
                               else
                                 (let (user, T1) = get_user today target_qq (conn P)
                                  in case update_user target_qq [Discount rate] T1 of
                                       (Inl e, T2) \<Rightarrow> (Inl e, P\<lparr>conn := T2\<rparr>)
                                     | (Inr u, T2) \<Rightarrow>
                                         (Inr (DiscountOk target_qq rate), P\<lparr>conn := T2\<rparr>)))"

text \<open>
  \<^verbatim>\<open>cmd_rank\<close> runs \<^verbatim>\<open>SELECT qq, balance FROM user_data ORDER BY balance DESC LIMIT 10\<close>.
  The statement names no second sort key. SQLite scans the table by rowid and its sort
  keeps rows with equal keys in the order of the scan, so the query is a stable sort of
  the table, descending in \<^verbatim>\<open>balance\<close>, cut after ten rows. \<open>insert_desc\<close> puts a row
  before the first row of a sorted list whose balance is not higher.
\<close>

fun insert_desc :: "user_row \<Rightarrow> user_row list \<Rightarrow> user_row list" where
  "insert_desc x [] = [x]"
| "insert_desc x (y # ys) =
     (if fle (balance y) (balance x) then x # y # ys else y # insert_desc x ys)"

definition order_by_balance_desc :: "table \<Rightarrow> user_row list" where
  "order_by_balance_desc T = foldr insert_desc T []"

definition cmd_rank :: "plugin \<Rightarrow> reply" where
  "cmd_rank P =
     (if \<not> initialized_successfully P then ServiceError
      else let rows = take 10 (order_by_balance_desc (conn P))
           in if rows = [] then RankEmpty
              else Rank (map (\<lambda>r. (qq r, balance r)) rows))"

section \<open>Auxiliary definitions\<close>

text \<open>The row that \<^verbatim>\<open>_update_user\<close> writes for a merged dictionary.\<close>

definition stored :: "user_row \<Rightarrow> user_row" where
  "stored u = u\<lparr>joined_at := sql_real (joined_at u)\<rparr>"

text \<open>The row that a load returns for a stored row: the daily rollover of \<^verbatim>\<open>_get_user\<close>.\<close>

definition loaded :: "string \<Rightarrow> user_row \<Rightarrow> user_row" where
  "loaded today r =
     (if today_date r \<noteq> today then r\<lparr>today_date := today, today_consumption := Fin 0\<rparr> else r)"

text \<open>The row that a charged check-out writes for the loaded row \<open>u\<close>.\<close>

definition charged :: "user_row \<Rightarrow> pyfloat \<Rightarrow> pyfloat \<Rightarrow> user_row" where
  "charged u fee duration =
     u\<lparr>balance := fsub (balance u) fee,
       today_consumption := fadd (today_consumption u) fee,
       total_time := fadd (total_time u) duration,
       joined_at := None\<rparr>"

text \<open>What \<^verbatim>\<open>_admin_op\<close> returns once the new balance \<open>nb\<close> of the loaded row \<open>u\<close> is known.\<close>

definition admin_written :: "admin_kind \<Rightarrow> string \<Rightarrow> pyfloat \<Rightarrow> user_row \<Rightarrow> pyfloat \<Rightarrow> table \<Rightarrow> (exn + reply) \<times> table" where
  "admin_written k t amount u nb T1 =
     (if not_null_ok (u\<lparr>balance := nb\<rparr>)
      then (Inr (AdminOk k t amount nb), update_where t (\<lambda>x. stored (u\<lparr>balance := nb\<rparr>)) T1)
      else (Inl IntegrityError, T1))"

section \<open>The billing rule in the words of the specification\<close>

text \<open>
  The specification's \<open>elapsedFee(durationSeconds, hourlyRate, discount)\<close>: zero up to the
  grace period of 120 seconds, otherwise \<open>ceil(durationSeconds / 1800)\<close> units of half
  the hourly rate, times the discount. The operations are those of the program's numbers.
  The specification speaks of finite durations; \<open>fceil\<close> is the ceiling there.
\<close>

fun fceil :: "pyfloat \<Rightarrow> int" where
  "fceil (Fin x) = \<lceil>x\<rceil>"
| "fceil a = 0"

definition elapsedFee :: "pyfloat \<Rightarrow> pyfloat \<Rightarrow> pyfloat \<Rightarrow> pyfloat" where
  "elapsedFee durationSeconds hourlyRate disc =
     (if fle durationSeconds (Fin 120) then Fin 0
      else fmul (fmul (float_of_int (fceil (fdiv_lit durationSeconds 1800)))
                      (fdiv_lit hourlyRate 2)) disc)"

section \<open>Example states\<close>

definition ex_row :: user_row where
  "ex_row = \<lparr>qq = ''10001'', balance = Fin 10, joined_at = Some (Fin 1000),
             total_time = Fin 0, today_date = ''2024-05-01'', today_consumption = Fin 6,
             discount = Fin (1 / 2)\<rparr>"

definition ex_plugin :: plugin where
  "ex_plugin = \<lparr>initialized_successfully = True, conn = [ex_row]\<rparr>"

text \<open>A checked-in account whose balance of 4 covers one fee of 3, not two.\<close>

definition ex_once :: plugin where
  "ex_once =
     \<lparr>initialized_successfully = True,
      conn = [\<lparr>qq = ''40004'', balance = Fin 4, joined_at = Some (Fin 1000),
               total_time = Fin 0, today_date = ''2024-05-01'', today_consumption = Fin 0,
               discount = Fin (1 / 2)\<rparr>]\<rparr>"

text \<open>An account holding the float 0.1.\<close>

definition ex_small :: plugin where
  "ex_small =
     \<lparr>initialized_successfully = True,
      conn = [\<lparr>qq = ''20002'', balance = Fin (3602879701896397 / 36028797018963968),
               joined_at = None, total_time = Fin 0, today_date = ''2024-05-01'',
               today_consumption = Fin 0, discount = Fin 1\<rparr>]\<rparr>"

section \<open>Example tables for the ranking\<close>

text \<open>
  Fifteen accounts with the balances 1 to 15, and three accounts of which the first and
  the last inserted have equal balances.
\<close>

definition acct :: "string \<Rightarrow> rat \<Rightarrow> user_row" where
  "acct q b = \<lparr>qq = q, balance = Fin b, joined_at = None, total_time = Fin 0,
               today_date = ''2024-05-01'', today_consumption = Fin 0, discount = Fin 1\<rparr>"

definition ex_fifteen :: plugin where
  "ex_fifteen =
     \<lparr>initialized_successfully = True,
      conn = [acct ''1001'' 1, acct ''1002'' 2, acct ''1003'' 3, acct ''1004'' 4,
              acct ''1005'' 5, acct ''1006'' 6, acct ''1007'' 7, acct ''1008'' 8,
              acct ''1009'' 9, acct ''1010'' 10, acct ''1011'' 11, acct ''1012'' 12,
              acct ''1013'' 13, acct ''1014'' 14, acct ''1015'' 15]\<rparr>"

definition ex_ties :: plugin where
  "ex_ties =
     \<lparr>initialized_successfully = True,
      conn = [acct ''1002'' 5, acct ''1003'' 8, acct ''1001'' 5]\<rparr>"

section \<open>Evaluating the model on concrete inputs\<close>

lemma floor_rat_numeral_div [simp]:
  "\<lfloor>numeral a / numeral b :: rat\<rfloor> = numeral a div numeral b"
  by (metis floor_divide_of_int_eq of_int_numeral)

lemma floor_rat_one_div [simp]:
  "\<lfloor>1 / numeral b :: rat\<rfloor> = 1 div numeral b"
  by (metis floor_divide_of_int_eq of_int_numeral of_int_1)

lemma ceiling_rat_numeral_div [simp]:
  "\<lceil>numeral a / numeral b :: rat\<rceil> = - (- numeral a div numeral b)"
  by (metis ceiling_divide_eq_div of_int_numeral)

lemmas float_eval = rnd_def rnd_pos_def round_half_even_def pow2_def Let_def fsub_def
  flt_def float_of_int_def

lemmas table_eval = select_qq_def update_where_def get_user_def update_user_def
  not_null_ok_def sql_real_def ex_row_def ex_plugin_def

lemmas str_eval = str_split_def is_space_def str_isdigit_def is_digit_def isdigit_char_def
  float_of_str_def
  take_sign_def parse_decimal_def parse_exponent_def nat_of_digits_def digit_val_def
  pow10_def lower_def str_endswith_def str_strip_def parse_rate_def

lemmas leave_eval = cmd_leave_def final_fee_def FEE_PER_30_MINS_def HOURLY_FEE_def
  GRACE_PERIOD_SECONDS_def elapsedFee_def loaded_def charged_def

lemma ex_row_simps:
  "qq ex_row = ''10001''" "balance ex_row = Fin 10" "joined_at ex_row = Some (Fin 1000)"
  "total_time ex_row = Fin 0" "today_date ex_row = ''2024-05-01''"
  "today_consumption ex_row = Fin 6" "discount ex_row = Fin (1 / 2)"
  by (simp_all add: ex_row_def)

lemma ex_plugin_simps:
  "initialized_successfully ex_plugin" "conn ex_plugin = [ex_row]"
  "select_qq ''10001'' [ex_row] = Some ex_row"
  by (simp_all add: ex_plugin_def select_qq_def ex_row_simps)

section \<open>The table operations\<close>

lemma select_qq_key: "select_qq q T = Some r \<Longrightarrow> qq r = q"
  by (auto simp: select_qq_def dest: find_Some_iff[THEN iffD1])

lemma select_qq_update_where:
  assumes "\<And>r. qq r = q \<Longrightarrow> qq (f r) = q"
  shows "select_qq q' (update_where q f T) =
           (if q' = q then map_option f (select_qq q T) else select_qq q' T)"
  using assms by (induction T) (auto simp: select_qq_def update_where_def)

lemma update_where_same:
  assumes "\<And>r. r \<in> set T \<Longrightarrow> qq r = q \<Longrightarrow> f r = r"
  shows "update_where q f T = T"
  using assms by (induction T) (auto simp: update_where_def)

lemma update_where_comp:
  assumes "\<And>r. qq r = q \<Longrightarrow> qq (g r) = q"
  shows "update_where q f (update_where q g T) = update_where q (f \<circ> g) T"
  using assms by (induction T) (auto simp: update_where_def)

lemma update_where_cong_key:
  assumes "\<And>r. qq r = q \<Longrightarrow> f r = g r"
  shows "update_where q f T = update_where q g T"
  using assms by (simp add: update_where_def)

lemma select_qq_append_new:
  "select_qq q T = None \<Longrightarrow> qq u = q \<Longrightarrow> select_qq q (T @ [u]) = Some u"
  by (induction T) (auto simp: select_qq_def split: if_splits)

lemma select_qq_append_other:
  "qq u \<noteq> q' \<Longrightarrow> select_qq q' (T @ [u]) = select_qq q' T"
  by (induction T) (auto simp: select_qq_def)

section \<open>Loading and updating an account\<close>

lemma get_user_existing:
  assumes "select_qq q T = Some r"
  shows "get_user today q T =
           (if today_date r \<noteq> today
            then (r\<lparr>today_date := today, today_consumption := Fin 0\<rparr>,
                  update_where q (\<lambda>r. r\<lparr>today_date := today, today_consumption := Fin 0\<rparr>) T)
            else (r, T))"
  using assms by (simp add: get_user_def)

lemma get_user_missing:
  assumes "select_qq q T = None"
  shows "get_user today q T =
           (\<lparr>qq = q, balance = Fin 0, joined_at = None, total_time = Fin 0,
             today_date = today, today_consumption = Fin 0, discount = Fin 1\<rparr>,
            T @ [\<lparr>qq = q, balance = Fin 0, joined_at = None, total_time = Fin 0,
             today_date = today, today_consumption = Fin 0, discount = Fin 1\<rparr>])"
  using assms by (simp add: get_user_def Let_def)

lemma get_user_stored:
  "select_qq q (snd (get_user today q T)) = Some (fst (get_user today q T))"
proof (cases "select_qq q T")
  case None
  then show ?thesis by (simp add: get_user_missing select_qq_append_new)
next
  case (Some r)
  then show ?thesis by (simp add: get_user_existing select_qq_update_where)
qed

lemma get_user_today: "today_date (fst (get_user today q T)) = today"
  by (cases "select_qq q T") (auto simp: get_user_missing get_user_existing)

lemma get_user_qq: "qq (fst (get_user today q T)) = q"
  by (cases "select_qq q T") (auto simp: get_user_missing get_user_existing dest: select_qq_key)

lemma get_user_other:
  "q' \<noteq> q \<Longrightarrow> select_qq q' (snd (get_user today q T)) = select_qq q' T"
  by (cases "select_qq q T")
     (auto simp: get_user_missing get_user_existing select_qq_update_where select_qq_append_other)

lemma apply_upd_qq: "qq (apply_upd u f) = qq u"
  by (cases f) auto

lemma foldl_apply_upd_qq: "qq (foldl apply_upd u fs) = qq u"
  by (induction fs arbitrary: u) (auto simp: apply_upd_qq)

lemma apply_upd_today_date: "today_date (apply_upd u f) = today_date u"
  by (cases f) auto

lemma foldl_apply_upd_today_date: "today_date (foldl apply_upd u fs) = today_date u"
  by (induction fs arbitrary: u) (auto simp: apply_upd_today_date)

lemma update_user_loaded:
  assumes "select_qq q T = Some u"
  shows "update_user q updates T =
           (if not_null_ok (foldl apply_upd u updates)
            then (Inr (foldl apply_upd u updates),
                  update_where q (\<lambda>x. stored (foldl apply_upd u updates)) T)
            else (Inl IntegrityError, T))"
proof -
  let ?v = "foldl apply_upd u updates"
  have key: "qq ?v = q"
    using assms by (simp add: foldl_apply_upd_qq select_qq_key)
  have "update_where q
          (\<lambda>x. x\<lparr>balance := balance ?v, joined_at := sql_real (joined_at ?v),
                  total_time := total_time ?v, today_date := today_date ?v,
                  today_consumption := today_consumption ?v, discount := discount ?v\<rparr>) T
        = update_where q (\<lambda>x. stored ?v) T"
    by (rule update_where_cong_key) (simp add: stored_def key)
  then show ?thesis
    using assms key by (simp add: update_user_def Let_def)
qed

section \<open>Check-out, by cases of the loaded account\<close>

lemma cmd_leave_loaded:
  assumes "initialized_successfully P" and "uid \<noteq> []"
    and "get_user today uid (conn P) = (u, T1)" and "joined_at u = Some j"
  shows "cmd_leave today now uid P =
     (if fle (fsub now j) GRACE_PERIOD_SECONDS then
        (if not_null_ok u
         then (Inr Waived, P\<lparr>conn := update_where uid (\<lambda>x. u\<lparr>joined_at := None\<rparr>) T1\<rparr>)
         else (Inl IntegrityError, P\<lparr>conn := T1\<rparr>))
      else case final_fee (fsub now j) (discount u) of
             Inl e \<Rightarrow> (Inl e, P\<lparr>conn := T1\<rparr>)
           | Inr fee \<Rightarrow>
               if flt (balance u) fee
               then (Inr (InsufficientBalance fee (balance u)), P\<lparr>conn := T1\<rparr>)
               else if not_null_ok (u\<lparr>balance := fsub (balance u) fee,
                                      today_consumption := fadd (today_consumption u) fee,
                                      total_time := fadd (total_time u) (fsub now j)\<rparr>)
               then (Inr (LeaveOk (fsub now j) fee (fadd (today_consumption u) fee)
                            (fsub (balance u) fee)),
                     P\<lparr>conn := update_where uid
                                  (\<lambda>x. u\<lparr>balance := fsub (balance u) fee,
                                          today_consumption := fadd (today_consumption u) fee,
                                          total_time := fadd (total_time u) (fsub now j),
                                          joined_at := None\<rparr>) T1\<rparr>)
               else (Inl IntegrityError, P\<lparr>conn := T1\<rparr>))"
proof -
  have sel: "select_qq uid T1 = Some u"
    using get_user_stored[of uid today "conn P"] assms(3) by simp
  show ?thesis
    using assms
    by (simp add: cmd_leave_def Let_def update_user_loaded[OF sel] stored_def sql_real_def
                  not_null_ok_def split: sum.splits)
qed

lemma get_user_loaded:
  assumes "select_qq q T = Some r"
  shows "fst (get_user today q T) = loaded today r"
  using assms by (simp add: get_user_existing loaded_def)

lemma final_fee_elapsedFee:
  assumes "fdiv_lit (Fin d) 1800 = Fin x" and "120 < d"
  shows "final_fee (Fin d) disc = Inr (elapsedFee (Fin d) HOURLY_FEE disc)"
  using assms
  by (simp add: final_fee_def elapsedFee_def FEE_PER_30_MINS_def Let_def)

lemma select_after_write:
  assumes "select_qq q T = Some u" and "qq v = q"
  shows "select_qq q (update_where q (\<lambda>x. v) T) = Some v"
  using assms by (simp add: select_qq_update_where)

lemma loaded_fields:
  "balance (loaded today r) = balance r" "discount (loaded today r) = discount r"
  "total_time (loaded today r) = total_time r" "joined_at (loaded today r) = joined_at r"
  "qq (loaded today r) = qq r" "today_date (loaded today r) = today"
  "today_consumption (loaded today r) = (if today_date r = today then today_consumption r else Fin 0)"
  by (simp_all add: loaded_def)

text \<open>
  Claim C1. For every check-out of an account that is checked in, with elapsed duration
  \<open>d\<close>: if \<open>d\<close> is at most the grace period of 120 seconds the fee is 0, the reply is
  the waiver and the stored balance is untouched; otherwise the fee that the check-out
  computes, reports and debits is \<open>ceil(d / 1800) * (HOURLY_FEE / 2) * discount\<close> for
  the discount stored with the account, in the program's arithmetic. (The quotient
  \<open>d / 1800\<close> of a float is finite; a charged check-out stores no NaN.)
\<close>

theorem checkout_fee_formula:
  assumes "initialized_successfully P" and "uid \<noteq> []"
    and "select_qq uid (conn P) = Some r" and "joined_at r = Some j"
    and "fsub now j = Fin d"
  shows "(d \<le> 120 \<longrightarrow>
            elapsedFee (Fin d) HOURLY_FEE (discount r) = Fin 0
          \<and> (not_null_ok r \<longrightarrow>
                fst (cmd_leave today now uid P) = Inr Waived
              \<and> map_option balance (select_qq uid (conn (snd (cmd_leave today now uid P))))
                  = Some (balance r)))
       \<and> (120 < d \<and> (\<exists>x. fdiv_lit (Fin d) 1800 = Fin x) \<longrightarrow>
            final_fee (Fin d) (discount r) = Inr (elapsedFee (Fin d) HOURLY_FEE (discount r))
          \<and> (flt (balance r) (elapsedFee (Fin d) HOURLY_FEE (discount r)) \<longrightarrow>
                fst (cmd_leave today now uid P)
                  = Inr (InsufficientBalance (elapsedFee (Fin d) HOURLY_FEE (discount r)) (balance r)))
          \<and> (\<not> flt (balance r) (elapsedFee (Fin d) HOURLY_FEE (discount r))
               \<and> not_null_ok (charged (loaded today r) (elapsedFee (Fin d) HOURLY_FEE (discount r)) (Fin d)) \<longrightarrow>
                fst (cmd_leave today now uid P)
                  = Inr (LeaveOk (Fin d) (elapsedFee (Fin d) HOURLY_FEE (discount r))
                           (fadd (today_consumption (loaded today r)) (elapsedFee (Fin d) HOURLY_FEE (discount r)))
                           (fsub (balance r) (elapsedFee (Fin d) HOURLY_FEE (discount r))))
              \<and> map_option balance (select_qq uid (conn (snd (cmd_leave today now uid P))))
                  = Some (fsub (balance r) (elapsedFee (Fin d) HOURLY_FEE (discount r)))))"
proof -
  obtain u T1 where g: "get_user today uid (conn P) = (u, T1)"
    by (cases "get_user today uid (conn P)")
  have u: "u = loaded today r"
    using get_user_loaded[OF assms(3), of today] g by simp
  have sel: "select_qq uid T1 = Some u"
    using get_user_stored[of uid today "conn P"] g by simp
  have key: "qq u = uid"
    using sel by (rule select_qq_key)
  have ju: "joined_at u = Some j"
    using assms(4) u by (simp add: loaded_fields)
  note leave = cmd_leave_loaded[OF assms(1,2) g ju, of now]
  show ?thesis
  proof (intro conjI impI)
    assume "d \<le> 120"
    then show "elapsedFee (Fin d) HOURLY_FEE (discount r) = Fin 0"
      by (simp add: elapsedFee_def)
  next
    assume "d \<le> 120" and "not_null_ok r"
    then have w: "cmd_leave today now uid P
             = (Inr Waived, P\<lparr>conn := update_where uid (\<lambda>x. u\<lparr>joined_at := None\<rparr>) T1\<rparr>)"
      using leave assms(5) u
      by (simp add: GRACE_PERIOD_SECONDS_def not_null_ok_def loaded_def)
    show "fst (cmd_leave today now uid P) = Inr Waived"
      by (simp add: w)
    show "map_option balance (select_qq uid (conn (snd (cmd_leave today now uid P))))
            = Some (balance r)"
      using key u by (simp add: w select_after_write[OF sel] loaded_fields)
  next
    assume h: "120 < d \<and> (\<exists>x. fdiv_lit (Fin d) 1800 = Fin x)"
    then obtain x where "fdiv_lit (Fin d) 1800 = Fin x" by blast
    then show "final_fee (Fin d) (discount r) = Inr (elapsedFee (Fin d) HOURLY_FEE (discount r))"
      using h by (simp add: final_fee_elapsedFee)
  next
    let ?fee = "elapsedFee (Fin d) HOURLY_FEE (discount r)"
    assume h: "120 < d \<and> (\<exists>x. fdiv_lit (Fin d) 1800 = Fin x)" and low: "flt (balance r) ?fee"
    then obtain x where "fdiv_lit (Fin d) 1800 = Fin x" by blast
    then have ff: "final_fee (Fin d) (discount r) = Inr ?fee"
      using h by (simp add: final_fee_elapsedFee)
    show "fst (cmd_leave today now uid P) = Inr (InsufficientBalance ?fee (balance r))"
      using leave assms(5) u h low ff
      by (simp add: GRACE_PERIOD_SECONDS_def loaded_fields)
  next
    let ?fee = "elapsedFee (Fin d) HOURLY_FEE (discount r)"
    assume h: "120 < d \<and> (\<exists>x. fdiv_lit (Fin d) 1800 = Fin x)"
      and ok: "\<not> flt (balance r) ?fee \<and> not_null_ok (charged (loaded today r) ?fee (Fin d))"
    then obtain x where "fdiv_lit (Fin d) 1800 = Fin x" by blast
    then have ff: "final_fee (Fin d) (discount r) = Inr ?fee"
      using h by (simp add: final_fee_elapsedFee)
    have nn: "not_null_ok (u\<lparr>balance := fsub (balance u) ?fee,
                today_consumption := fadd (today_consumption u) ?fee,
                total_time := fadd (total_time u) (Fin d)\<rparr>)"
      using ok u by (simp add: charged_def not_null_ok_def)
    have c: "cmd_leave today now uid P
           = (Inr (LeaveOk (Fin d) ?fee (fadd (today_consumption u) ?fee) (fsub (balance u) ?fee)),
              P\<lparr>conn := update_where uid (\<lambda>x. charged u ?fee (Fin d)) T1\<rparr>)"
      using leave assms(5) h ok ff nn u
      by (simp add: GRACE_PERIOD_SECONDS_def loaded_fields charged_def)
    show "fst (cmd_leave today now uid P)
            = Inr (LeaveOk (Fin d) ?fee (fadd (today_consumption (loaded today r)) ?fee)
                     (fsub (balance r) ?fee))"
      using u by (simp add: c loaded_fields)
    show "map_option balance (select_qq uid (conn (snd (cmd_leave today now uid P))))
            = Some (fsub (balance r) ?fee)"
      using u key by (simp add: c select_after_write[OF sel] charged_def loaded_fields)
  qed
qed

theorem checkout_fee_formula_witness:
  "initialized_successfully ex_plugin \<and> ''10001'' \<noteq> [] 
   \<and> select_qq ''10001'' (conn ex_plugin) = Some ex_row \<and> joined_at ex_row = Some (Fin 1000)
   \<and> fsub (Fin 1060) (Fin 1000) = Fin 60 \<and> fsub (Fin 3000) (Fin 1000) = Fin 2000
   \<and> fsub (Fin 13000) (Fin 1000) = Fin 12000
   \<and> fst (cmd_leave ''2024-05-01'' (Fin 1060) ''10001'' ex_plugin) = Inr Waived
   \<and> fst (cmd_leave ''2024-05-01'' (Fin 3000) ''10001'' ex_plugin)
       = Inr (LeaveOk (Fin 2000) (Fin 3) (Fin 9) (Fin 7))
   \<and> fst (cmd_leave ''2024-05-01'' (Fin 13000) ''10001'' ex_plugin)
       = Inr (InsufficientBalance (Fin (21 / 2)) (Fin 10))"
proof -
  have h: "initialized_successfully ex_plugin" "''10001'' \<noteq> []"
    "select_qq ''10001'' (conn ex_plugin) = Some ex_row" "joined_at ex_row = Some (Fin 1000)"
    by (simp_all add: ex_plugin_simps ex_row_simps)
  have d1: "fsub (Fin 1060) (Fin 1000) = Fin 60"
    and d2: "fsub (Fin 3000) (Fin 1000) = Fin 2000"
    and d3: "fsub (Fin 13000) (Fin 1000) = Fin 12000"
    by (simp_all add: float_eval)
  have f2: "elapsedFee (Fin 2000) HOURLY_FEE (Fin (1 / 2)) = Fin 3"
    and f3: "elapsedFee (Fin 12000) HOURLY_FEE (Fin (1 / 2)) = Fin (21 / 2)"
    by (simp_all add: leave_eval float_eval)
  have "fdiv_lit (Fin 2000) 1800 = Fin (5003999585967218 / 4503599627370496)"
    by (simp add: float_eval)
  then have q2: "\<exists>x. fdiv_lit (Fin 2000) 1800 = Fin x"
    by (rule exI)
  have "fdiv_lit (Fin 12000) 1800 = Fin (7505999378950827 / 1125899906842624)"
    by (simp add: float_eval)
  then have q3: "\<exists>x. fdiv_lit (Fin 12000) 1800 = Fin x"
    by (rule exI)
  have a2: "rnd 7 = Fin 7" "rnd 9 = Fin 9" "rnd 2000 = Fin 2000"
    by (simp_all add: float_eval)
  have "fst (cmd_leave ''2024-05-01'' (Fin 1060) ''10001'' ex_plugin) = Inr Waived"
    using checkout_fee_formula[OF h d1, of "''2024-05-01''"]
    by (simp add: ex_row_simps not_null_ok_def)
  moreover have "fst (cmd_leave ''2024-05-01'' (Fin 3000) ''10001'' ex_plugin)
       = Inr (LeaveOk (Fin 2000) (Fin 3) (Fin 9) (Fin 7))"
    using checkout_fee_formula[OF h d2, of "''2024-05-01''"] q2
    by (simp add: ex_row_simps f2 a2 flt_def fsub_def not_null_ok_def loaded_def charged_def)
  moreover have "fst (cmd_leave ''2024-05-01'' (Fin 13000) ''10001'' ex_plugin)
       = Inr (InsufficientBalance (Fin (21 / 2)) (Fin 10))"
    using checkout_fee_formula[OF h d3, of "''2024-05-01''"] q3
    by (simp add: ex_row_simps f3 flt_def)
  ultimately show ?thesis
    using h d1 d2 d3 by simp
qed

section \<open>The daily rollover\<close>

text \<open>
  Claim C5. Loading an account on a day other than its stored \<^verbatim>\<open>today_date\<close> sets
  \<^verbatim>\<open>today_date\<close> to the current day and \<^verbatim>\<open>today_consumption\<close> to 0, in the returned
  record and in the table (the stored row is the returned one); the outcome of the load
  is the same whatever the previous consumption was, so that value cannot be recovered.
  Loading it on its stored day changes nothing, and no write through \<^verbatim>\<open>_update_user\<close>
  changes the stored day.
\<close>

theorem daily_rollover_on_load:
  assumes "select_qq q T = Some r"
  shows "(today_date r \<noteq> today \<longrightarrow>
            today_date (fst (get_user today q T)) = today
          \<and> today_consumption (fst (get_user today q T)) = Fin 0
          \<and> select_qq q (snd (get_user today q T)) = Some (fst (get_user today q T))
          \<and> get_user today q (update_where q (\<lambda>x. x\<lparr>today_consumption := n\<rparr>) T)
              = get_user today q T)
       \<and> (today_date r = today \<longrightarrow> get_user today q T = (r, T))
       \<and> (\<forall>updates u T'. update_user q updates T = (Inr u, T') \<longrightarrow>
             today_date u = today_date r
           \<and> map_option today_date (select_qq q T') = Some (today_date r))"
proof (intro conjI impI allI)
  fix updates u T'
  assume w: "update_user q updates T = (Inr u, T')"
  have k: "qq (stored (foldl apply_upd r updates)) = q"
    using assms by (simp add: stored_def foldl_apply_upd_qq select_qq_key)
  have eq: "u = foldl apply_upd r updates"
    and tab: "T' = update_where q (\<lambda>x. stored (foldl apply_upd r updates)) T"
    using w by (auto simp: update_user_loaded[OF assms] split: if_splits)
  show "today_date u = today_date r"
    by (simp add: eq foldl_apply_upd_today_date)
  show "map_option today_date (select_qq q T') = Some (today_date r)"
    using k by (simp add: tab select_after_write[OF assms] stored_def foldl_apply_upd_today_date)
next
  assume old: "today_date r \<noteq> today"
  let ?roll = "\<lambda>x. x\<lparr>today_date := today, today_consumption := Fin 0\<rparr>"
  let ?setn = "\<lambda>x. x\<lparr>today_consumption := n\<rparr>"
  have sel': "select_qq q (update_where q ?setn T) = Some (?setn r)"
    using assms by (simp add: select_qq_update_where)
  have "update_where q ?roll (update_where q ?setn T) = update_where q (?roll \<circ> ?setn) T"
    by (rule update_where_comp) simp
  also have "\<dots> = update_where q ?roll T"
    by (rule update_where_cong_key) simp
  finally show "get_user today q (update_where q ?setn T) = get_user today q T"
    using old assms by (simp add: get_user_existing[OF sel'] get_user_existing[OF assms])
next
  show "select_qq q (snd (get_user today q T)) = Some (fst (get_user today q T))"
    by (rule get_user_stored)
qed (use assms in \<open>simp_all add: get_user_existing\<close>)

theorem daily_rollover_on_load_witness:
  "select_qq ''10001'' [ex_row] = Some ex_row \<and> today_date ex_row \<noteq> ''2024-05-02''
   \<and> today_date ex_row = ''2024-05-01''
   \<and> get_user ''2024-05-02'' ''10001'' [ex_row]
       = (ex_row\<lparr>today_date := ''2024-05-02'', today_consumption := Fin 0\<rparr>,
          [ex_row\<lparr>today_date := ''2024-05-02'', today_consumption := Fin 0\<rparr>])
   \<and> get_user ''2024-05-02'' ''10001''
        (update_where ''10001'' (\<lambda>x. x\<lparr>today_consumption := Fin 99\<rparr>) [ex_row])
       = get_user ''2024-05-02'' ''10001'' [ex_row]
   \<and> get_user ''2024-05-01'' ''10001'' [ex_row] = (ex_row, [ex_row])
   \<and> fst (update_user ''10001'' [Balance (Fin 1)] [ex_row]) = Inr (ex_row\<lparr>balance := Fin 1\<rparr>)
   \<and> today_date (ex_row\<lparr>balance := Fin 1\<rparr>) = ''2024-05-01''"
proof -
  have h: "select_qq ''10001'' [ex_row] = Some ex_row"
    by (simp add: table_eval)
  have a: "today_date ex_row \<noteq> ''2024-05-02''" and b: "today_date ex_row = ''2024-05-01''"
    by (simp_all add: ex_row_def)
  have g: "get_user ''2024-05-02'' ''10001'' [ex_row]
       = (ex_row\<lparr>today_date := ''2024-05-02'', today_consumption := Fin 0\<rparr>,
          [ex_row\<lparr>today_date := ''2024-05-02'', today_consumption := Fin 0\<rparr>])"
    by (simp add: table_eval)
  have w: "fst (update_user ''10001'' [Balance (Fin 1)] [ex_row]) = Inr (ex_row\<lparr>balance := Fin 1\<rparr>)"
    by (simp add: update_user_loaded[OF h] not_null_ok_def ex_row_simps)
  show ?thesis
    using daily_rollover_on_load[OF h, of "''2024-05-02''" "Fin 99"]
          daily_rollover_on_load[OF h, of "''2024-05-01''" "Fin 99"] h a b g w
    by simp
qed


section \<open>Check-out that cannot be paid\<close>

text \<open>
  Claim C2, amended. For an account that is checked in, past the grace period, and whose
  balance is strictly below the computed fee, check-out replies with the
  insufficient-balance failure and writes nothing: the table is the table that the load
  left, and the stored row is the row as loaded.
  Balance, total time and the session start are unchanged; today's consumption is
  unchanged when the stored day is the current day (the whole table is then unchanged),
  and is 0 after the load's daily rollover otherwise.
\<close>

theorem insufficient_checkout_keeps_account:
  assumes "initialized_successfully P" and "uid \<noteq> []"
    and "select_qq uid (conn P) = Some r" and "joined_at r = Some j"
    and "\<not> fle (fsub now j) GRACE_PERIOD_SECONDS"
    and "final_fee (fsub now j) (discount r) = Inr fee"
    and "flt (balance r) fee"
  shows "fst (cmd_leave today now uid P) = Inr (InsufficientBalance fee (balance r))
       \<and> snd (cmd_leave today now uid P) = P\<lparr>conn := snd (get_user today uid (conn P))\<rparr>
       \<and> select_qq uid (conn (snd (cmd_leave today now uid P))) = Some (loaded today r)
       \<and> balance (loaded today r) = balance r
       \<and> total_time (loaded today r) = total_time r
       \<and> joined_at (loaded today r) = joined_at r
       \<and> (today_date r = today \<longrightarrow>
            today_consumption (loaded today r) = today_consumption r
          \<and> snd (cmd_leave today now uid P) = P)
       \<and> (today_date r \<noteq> today \<longrightarrow> today_consumption (loaded today r) = Fin 0)"
proof -
  obtain u T1 where g: "get_user today uid (conn P) = (u, T1)"
    by (cases "get_user today uid (conn P)")
  have u: "u = loaded today r"
    using get_user_loaded[OF assms(3), of today] g by simp
  have sel: "select_qq uid T1 = Some u"
    using get_user_stored[of uid today "conn P"] g by simp
  have ju: "joined_at u = Some j"
    using assms(4) u by (simp add: loaded_fields)
  have res: "cmd_leave today now uid P
               = (Inr (InsufficientBalance fee (balance r)), P\<lparr>conn := T1\<rparr>)"
    using cmd_leave_loaded[OF assms(1,2) g ju, of now] assms(5,6,7) u
    by (simp add: loaded_fields)
  have same: "today_date r = today \<Longrightarrow> T1 = conn P"
    using g assms(3) by (simp add: get_user_existing)
  show ?thesis
    using res sel u same g by (simp add: loaded_fields)
qed

text \<open>
  The claim as stated fails when the day has changed since the account's stored day: the
  failed check-out of 2024-05-02 leaves a consumption of 0 where 6 was stored.
\<close>

theorem insufficient_checkout_counterexample:
  "initialized_successfully ex_plugin
   \<and> map_option joined_at (select_qq ''10001'' (conn ex_plugin)) = Some (Some (Fin 1000))
   \<and> fst (cmd_leave ''2024-05-02'' (Fin 13000) ''10001'' ex_plugin)
       = Inr (InsufficientBalance (Fin (21 / 2)) (Fin 10))
   \<and> map_option today_consumption (select_qq ''10001'' (conn ex_plugin)) = Some (Fin 6)
   \<and> map_option today_consumption
        (select_qq ''10001'' (conn (snd (cmd_leave ''2024-05-02'' (Fin 13000) ''10001'' ex_plugin))))
       = Some (Fin 0)"
  by (simp add: leave_eval table_eval float_eval)

theorem insufficient_checkout_keeps_account_witness:
  "initialized_successfully ex_plugin \<and> ''10001'' \<noteq> []
   \<and> select_qq ''10001'' (conn ex_plugin) = Some ex_row \<and> joined_at ex_row = Some (Fin 1000)
   \<and> \<not> fle (fsub (Fin 13000) (Fin 1000)) GRACE_PERIOD_SECONDS
   \<and> final_fee (fsub (Fin 13000) (Fin 1000)) (discount ex_row) = Inr (Fin (21 / 2))
   \<and> flt (balance ex_row) (Fin (21 / 2))
   \<and> cmd_leave ''2024-05-01'' (Fin 13000) ''10001'' ex_plugin
       = (Inr (InsufficientBalance (Fin (21 / 2)) (Fin 10)), ex_plugin)"
proof -
  have h: "initialized_successfully ex_plugin" "''10001'' \<noteq> []"
    "select_qq ''10001'' (conn ex_plugin) = Some ex_row" "joined_at ex_row = Some (Fin 1000)"
    by (simp_all add: ex_plugin_simps ex_row_simps)
  have g: "\<not> fle (fsub (Fin 13000) (Fin 1000)) GRACE_PERIOD_SECONDS"
    by (simp add: float_eval GRACE_PERIOD_SECONDS_def)
  have f: "final_fee (fsub (Fin 13000) (Fin 1000)) (discount ex_row) = Inr (Fin (21 / 2))"
    by (simp add: leave_eval float_eval ex_row_simps)
  have l: "flt (balance ex_row) (Fin (21 / 2))"
    by (simp add: flt_def ex_row_simps)
  note t = insufficient_checkout_keeps_account[OF h g f l, of "''2024-05-01''"]
  have d: "today_date ex_row = ''2024-05-01''"
    by (simp add: ex_row_simps)
  have a: "fst (cmd_leave ''2024-05-01'' (Fin 13000) ''10001'' ex_plugin)
             = Inr (InsufficientBalance (Fin (21 / 2)) (balance ex_row))"
    using t by blast
  have b: "snd (cmd_leave ''2024-05-01'' (Fin 13000) ''10001'' ex_plugin) = ex_plugin"
    using t d by blast
  have "cmd_leave ''2024-05-01'' (Fin 13000) ''10001'' ex_plugin
       = (Inr (InsufficientBalance (Fin (21 / 2)) (Fin 10)), ex_plugin)"
    by (simp add: prod_eq_iff a b ex_row_simps)
  then show ?thesis
    using h g f l by simp
qed

section \<open>Check-out within the grace period\<close>

text \<open>
  Claim C7, amended. A check-out whose elapsed duration is at most the grace period
  replies with the waiver and stores the loaded row with \<^verbatim>\<open>joined_at\<close> cleared: balance
  and total time are unchanged; today's consumption is unchanged when the stored day is
  the current day, and is 0 after the load's daily rollover otherwise.
\<close>

theorem grace_checkout_frees_session:
  assumes "initialized_successfully P" and "uid \<noteq> []"
    and "select_qq uid (conn P) = Some r" and "joined_at r = Some j"
    and "fle (fsub now j) GRACE_PERIOD_SECONDS"
    and "not_null_ok r"
  shows "fst (cmd_leave today now uid P) = Inr Waived
       \<and> select_qq uid (conn (snd (cmd_leave today now uid P)))
           = Some ((loaded today r)\<lparr>joined_at := None\<rparr>)
       \<and> balance (loaded today r) = balance r
       \<and> total_time (loaded today r) = total_time r
       \<and> (today_date r = today \<longrightarrow> today_consumption (loaded today r) = today_consumption r)
       \<and> (today_date r \<noteq> today \<longrightarrow> today_consumption (loaded today r) = Fin 0)"
proof -
  obtain u T1 where g: "get_user today uid (conn P) = (u, T1)"
    by (cases "get_user today uid (conn P)")
  have u: "u = loaded today r"
    using get_user_loaded[OF assms(3), of today] g by simp
  have sel: "select_qq uid T1 = Some u"
    using get_user_stored[of uid today "conn P"] g by simp
  have key: "qq u = uid"
    using sel by (rule select_qq_key)
  have ju: "joined_at u = Some j"
    using assms(4) u by (simp add: loaded_fields)
  have nn: "not_null_ok u"
    using assms(6) u by (simp add: not_null_ok_def loaded_def)
  have res: "cmd_leave today now uid P
               = (Inr Waived, P\<lparr>conn := update_where uid (\<lambda>x. u\<lparr>joined_at := None\<rparr>) T1\<rparr>)"
    using cmd_leave_loaded[OF assms(1,2) g ju, of now] assms(5) nn by simp
  show ?thesis
    using u key by (simp add: res select_after_write[OF sel] loaded_fields)
qed

text \<open>
  The claim as stated fails when the day has changed: the waived check-out of 2024-05-02
  leaves a consumption of 0 where 6 was stored.
\<close>

theorem grace_checkout_counterexample:
  "initialized_successfully ex_plugin
   \<and> map_option joined_at (select_qq ''10001'' (conn ex_plugin)) = Some (Some (Fin 1000))
   \<and> fle (fsub (Fin 1060) (Fin 1000)) GRACE_PERIOD_SECONDS
   \<and> fst (cmd_leave ''2024-05-02'' (Fin 1060) ''10001'' ex_plugin) = Inr Waived
   \<and> map_option today_consumption (select_qq ''10001'' (conn ex_plugin)) = Some (Fin 6)
   \<and> map_option today_consumption
        (select_qq ''10001'' (conn (snd (cmd_leave ''2024-05-02'' (Fin 1060) ''10001'' ex_plugin))))
       = Some (Fin 0)"
  by (simp add: leave_eval table_eval float_eval)

theorem grace_checkout_frees_session_witness:
  "initialized_successfully ex_plugin \<and> ''10001'' \<noteq> []
   \<and> select_qq ''10001'' (conn ex_plugin) = Some ex_row \<and> joined_at ex_row = Some (Fin 1000)
   \<and> fle (fsub (Fin 1060) (Fin 1000)) GRACE_PERIOD_SECONDS \<and> not_null_ok ex_row
   \<and> fst (cmd_leave ''2024-05-01'' (Fin 1060) ''10001'' ex_plugin) = Inr Waived
   \<and> select_qq ''10001'' (conn (snd (cmd_leave ''2024-05-01'' (Fin 1060) ''10001'' ex_plugin)))
       = Some (ex_row\<lparr>joined_at := None\<rparr>)"
proof -
  have h: "initialized_successfully ex_plugin" "''10001'' \<noteq> []"
    "select_qq ''10001'' (conn ex_plugin) = Some ex_row" "joined_at ex_row = Some (Fin 1000)"
    by (simp_all add: ex_plugin_simps ex_row_simps)
  have g: "fle (fsub (Fin 1060) (Fin 1000)) GRACE_PERIOD_SECONDS"
    by (simp add: float_eval GRACE_PERIOD_SECONDS_def)
  have n: "not_null_ok ex_row"
    by (simp add: not_null_ok_def ex_row_simps)
  show ?thesis
    using grace_checkout_frees_session[OF h g n, of "''2024-05-01''"] h g n
    by (simp add: loaded_def ex_row_simps)
qed


section \<open>What the rollover leaves alone\<close>

text \<open>
  Claim C9. Loading an account changes at most \<^verbatim>\<open>today_date\<close> and
  \<^verbatim>\<open>today_consumption\<close>: balance, discount, total time and the session start of the
  returned and stored row are those of the row before, and the other accounts are
  untouched. An account that was checked in at \<open>j\<close> is still checked in after the load,
  and a later check-out at \<open>now\<close> is billed for the whole duration \<open>now - j\<close>.
\<close>

theorem rollover_keeps_session:
  assumes "select_qq q T = Some r" and "q \<noteq> []"
  shows "select_qq q (snd (get_user today q T)) = Some (fst (get_user today q T))
       \<and> balance (fst (get_user today q T)) = balance r
       \<and> discount (fst (get_user today q T)) = discount r
       \<and> total_time (fst (get_user today q T)) = total_time r
       \<and> joined_at (fst (get_user today q T)) = joined_at r
       \<and> (\<forall>q'. q' \<noteq> q \<longrightarrow> select_qq q' (snd (get_user today q T)) = select_qq q' T)
       \<and> (\<forall>j now fee.
             joined_at r = Some j
             \<and> \<not> fle (fsub now j) GRACE_PERIOD_SECONDS
             \<and> final_fee (fsub now j) (discount r) = Inr fee
             \<and> \<not> flt (balance r) fee
             \<and> not_null_ok (charged (loaded today r) fee (fsub now j)) \<longrightarrow>
             fst (cmd_leave today now q
                    \<lparr>initialized_successfully = True, conn = snd (get_user today q T)\<rparr>)
               = Inr (LeaveOk (fsub now j) fee
                        (fadd (today_consumption (loaded today r)) fee)
                        (fsub (balance r) fee))
           \<and> select_qq q (conn (snd (cmd_leave today now q
                    \<lparr>initialized_successfully = True, conn = snd (get_user today q T)\<rparr>)))
               = Some (charged (loaded today r) fee (fsub now j)))"
proof -
  obtain u T1 where g: "get_user today q T = (u, T1)"
    by (cases "get_user today q T")
  have u: "u = loaded today r"
    using get_user_loaded[OF assms(1), of today] g by simp
  have sel: "select_qq q T1 = Some u"
    using get_user_stored[of q today T] g by simp
  have key: "qq u = q"
    using sel by (rule select_qq_key)
  have again: "get_user today q T1 = (u, T1)"
    using sel u by (simp add: get_user_existing loaded_def)
  let ?P = "\<lparr>initialized_successfully = True, conn = T1\<rparr>"
  have later: "fst (cmd_leave today now q ?P)
                 = Inr (LeaveOk (fsub now j) fee (fadd (today_consumption u) fee)
                          (fsub (balance r) fee))
             \<and> select_qq q (conn (snd (cmd_leave today now q ?P)))
                 = Some (charged u fee (fsub now j))"
    if h: "joined_at r = Some j \<and> \<not> fle (fsub now j) GRACE_PERIOD_SECONDS
           \<and> final_fee (fsub now j) (discount r) = Inr fee \<and> \<not> flt (balance r) fee
           \<and> not_null_ok (charged (loaded today r) fee (fsub now j))"
    for j now fee
  proof -
    have ju: "joined_at u = Some j"
      using h u by (simp add: loaded_fields)
    have g': "get_user today q (conn ?P) = (u, T1)"
      using again by simp
    have nn: "not_null_ok (u\<lparr>balance := fsub (balance u) fee,
                today_consumption := fadd (today_consumption u) fee,
                total_time := fadd (total_time u) (fsub now j)\<rparr>)"
      using h u by (simp add: charged_def not_null_ok_def)
    have c: "cmd_leave today now q ?P
           = (Inr (LeaveOk (fsub now j) fee (fadd (today_consumption u) fee) (fsub (balance u) fee)),
              ?P\<lparr>conn := update_where q (\<lambda>x. charged u fee (fsub now j)) T1\<rparr>)"
      using cmd_leave_loaded[OF _ assms(2) g' ju, of now] h nn u
      by (simp add: loaded_fields charged_def)
    show ?thesis
      using u key by (simp add: c select_after_write[OF sel] charged_def loaded_fields)
  qed
  have other: "select_qq q' T1 = select_qq q' T" if "q' \<noteq> q" for q'
    using get_user_other[OF that, of today T] g by simp
  show ?thesis
    using sel u later other by (simp add: g loaded_fields)
qed

theorem rollover_keeps_session_witness:
  "select_qq ''10001'' [ex_row] = Some ex_row \<and> ''10001'' \<noteq> []
   \<and> today_date ex_row \<noteq> ''2024-05-02''
   \<and> joined_at ex_row = Some (Fin 1000)
   \<and> \<not> fle (fsub (Fin 3000) (Fin 1000)) GRACE_PERIOD_SECONDS
   \<and> final_fee (fsub (Fin 3000) (Fin 1000)) (discount ex_row) = Inr (Fin 3)
   \<and> \<not> flt (balance ex_row) (Fin 3)
   \<and> not_null_ok (charged (loaded ''2024-05-02'' ex_row) (Fin 3) (fsub (Fin 3000) (Fin 1000)))
   \<and> joined_at (fst (get_user ''2024-05-02'' ''10001'' [ex_row])) = Some (Fin 1000)
   \<and> balance (fst (get_user ''2024-05-02'' ''10001'' [ex_row])) = Fin 10
   \<and> fst (cmd_leave ''2024-05-02'' (Fin 3000) ''10001''
            \<lparr>initialized_successfully = True,
              conn = snd (get_user ''2024-05-02'' ''10001'' [ex_row])\<rparr>)
       = Inr (LeaveOk (Fin 2000) (Fin 3) (Fin 3) (Fin 7))"
proof -
  have h: "select_qq ''10001'' [ex_row] = Some ex_row" "''10001'' \<noteq> []"
    by (simp_all add: ex_plugin_simps)
  have d: "today_date ex_row \<noteq> ''2024-05-02''" and j: "joined_at ex_row = Some (Fin 1000)"
    by (simp_all add: ex_row_simps)
  have r: "rnd 2000 = Fin 2000" "rnd 3 = Fin 3" "rnd 7 = Fin 7"
    by (simp_all add: float_eval)
  have g: "\<not> fle (fsub (Fin 3000) (Fin 1000)) GRACE_PERIOD_SECONDS"
    by (simp add: fsub_def r GRACE_PERIOD_SECONDS_def)
  have f: "final_fee (fsub (Fin 3000) (Fin 1000)) (discount ex_row) = Inr (Fin 3)"
    by (simp add: leave_eval float_eval ex_row_simps)
  have l: "\<not> flt (balance ex_row) (Fin 3)"
    by (simp add: flt_def ex_row_simps)
  have n: "not_null_ok (charged (loaded ''2024-05-02'' ex_row) (Fin 3) (fsub (Fin 3000) (Fin 1000)))"
    by (simp add: not_null_ok_def charged_def loaded_def ex_row_simps fsub_def r)
  note t = rollover_keeps_session[OF h, of "''2024-05-02''"]
  have a: "joined_at (fst (get_user ''2024-05-02'' ''10001'' [ex_row])) = Some (Fin 1000)"
    and b: "balance (fst (get_user ''2024-05-02'' ''10001'' [ex_row])) = Fin 10"
    using t by (simp_all add: ex_row_simps)
  have "joined_at ex_row = Some (Fin 1000)
         \<and> \<not> fle (fsub (Fin 3000) (Fin 1000)) GRACE_PERIOD_SECONDS
         \<and> final_fee (fsub (Fin 3000) (Fin 1000)) (discount ex_row) = Inr (Fin 3)
         \<and> \<not> flt (balance ex_row) (Fin 3)
         \<and> not_null_ok (charged (loaded ''2024-05-02'' ex_row) (Fin 3) (fsub (Fin 3000) (Fin 1000)))"
    using j g f l n by simp
  with t have "fst (cmd_leave ''2024-05-02'' (Fin 3000) ''10001''
            \<lparr>initialized_successfully = True,
              conn = snd (get_user ''2024-05-02'' ''10001'' [ex_row])\<rparr>)
       = Inr (LeaveOk (fsub (Fin 3000) (Fin 1000)) (Fin 3)
                (fadd (today_consumption (loaded ''2024-05-02'' ex_row)) (Fin 3))
                (fsub (balance ex_row) (Fin 3)))"
    by blast
  then have c: "fst (cmd_leave ''2024-05-02'' (Fin 3000) ''10001''
            \<lparr>initialized_successfully = True,
              conn = snd (get_user ''2024-05-02'' ''10001'' [ex_row])\<rparr>)
       = Inr (LeaveOk (Fin 2000) (Fin 3) (Fin 3) (Fin 7))"
    by (simp add: fsub_def r loaded_def ex_row_simps)
  show ?thesis
    using h d j g f l n a b c by simp
qed

section \<open>Administrator credit and debit\<close>

lemma admin_write_loaded:
  assumes "select_qq t T1 = Some u"
  shows "admin_write k t amount nb T1 = admin_written k t amount u nb T1"
  using assms by (simp add: admin_write_def admin_written_def update_user_loaded)

lemma admin_op_valid:
  assumes "op_qq \<in> ADMIN_IDS" and "str_split msg = [c, t, a]" and "str_isdigit t"
    and "float_of_str a = Some amount" and "\<not> fle amount (Fin 0)"
    and "get_user today t T = (u, T1)"
  shows "admin_op today op_qq msg k T =
           (case k of
              Charge \<Rightarrow> admin_written k t amount u (fadd (balance u) amount) T1
            | Deduct \<Rightarrow>
                if flt (balance u) amount
                then (Inr (DeductInsufficient (balance u) amount), T1)
                else admin_written k t amount u (fsub (balance u) amount) T1)"
proof -
  have sel: "select_qq t T1 = Some u"
    using get_user_stored[of t today T] assms(6) by simp
  show ?thesis
    using assms by (simp add: admin_op_def Let_def admin_write_loaded[OF sel] split: admin_kind.splits)
qed

lemma admin_op_rejects:
  assumes "str_split msg = [c, t, a]"
    and "\<not> str_isdigit t \<or> float_of_str a = None \<or> (\<exists>x. float_of_str a = Some x \<and> fle x (Fin 0))"
  shows "snd (admin_op today op_qq msg k T) = T
       \<and> fst (admin_op today op_qq msg k T)
           \<in> {Inr PermissionDenied, Inr QQFormatError, Inr AmountFormatError}"
  using assms by (auto simp: admin_op_def Let_def)

lemma stored_fields:
  "balance (stored u) = balance u" "discount (stored u) = discount u" "qq (stored u) = qq u"
  "total_time (stored u) = total_time u" "today_date (stored u) = today_date u"
  "today_consumption (stored u) = today_consumption u"
  by (simp_all add: stored_def)

text \<open>
  Claim C4, amended. Balances are binary floats, and a float sum is rounded. For an
  account whose balance \<open>b\<close> is a non-negative float and an amount \<open>A > 0\<close> for which
  the sum \<open>b + A\<close> needs no rounding, a credit of \<open>A\<close> followed by a debit of \<open>A\<close>
  succeeds twice and leaves exactly \<open>b\<close>.
\<close>

theorem credit_debit_round_trip:
  assumes "initialized_successfully P" and "op_qq \<in> ADMIN_IDS"
    and "str_split msg1 = [c1, t, a]" and "str_split msg2 = [c2, t, a]"
    and "str_isdigit t" and "float_of_str a = Some (Fin A)" and "0 < A"
    and "select_qq t (conn P) = Some r" and "not_null_ok r"
    and "balance r = Fin b" and "0 \<le> b" and "rnd b = Fin b"
    and "rnd (b + A) = Fin (b + A)"
  shows "fst (cmd_charge today1 op_qq msg1 P) = Inr (AdminOk Charge t (Fin A) (Fin (b + A)))
       \<and> fst (cmd_deduct today2 op_qq msg2 (snd (cmd_charge today1 op_qq msg1 P)))
           = Inr (AdminOk Deduct t (Fin A) (Fin b))
       \<and> map_option balance
           (select_qq t (conn (snd (cmd_deduct today2 op_qq msg2
                                      (snd (cmd_charge today1 op_qq msg1 P))))))
           = Some (Fin b)"
proof -
  have pos: "\<not> fle (Fin A) (Fin 0)"
    using assms(7) by simp
  obtain u T1 where g1: "get_user today1 t (conn P) = (u, T1)"
    by (cases "get_user today1 t (conn P)")
  have u: "u = loaded today1 r"
    using get_user_loaded[OF assms(8), of today1] g1 by simp
  have sel1: "select_qq t T1 = Some u"
    using get_user_stored[of t today1 "conn P"] g1 by simp
  have key: "qq u = t"
    using sel1 by (rule select_qq_key)
  let ?u1 = "u\<lparr>balance := Fin (b + A)\<rparr>"
  let ?T2 = "update_where t (\<lambda>x. stored ?u1) T1"
  have nn1: "not_null_ok ?u1"
    using assms(9) u by (simp add: not_null_ok_def loaded_def)
  have bu: "balance u = Fin b"
    using u assms(10) by (simp add: loaded_fields)
  have c1: "admin_op today1 op_qq msg1 Charge (conn P)
              = (Inr (AdminOk Charge t (Fin A) (Fin (b + A))), ?T2)"
    using admin_op_valid[OF assms(2,3,5,6) pos g1, of Charge] nn1 bu assms(13)
    by (simp add: admin_written_def)
  have P1: "cmd_charge today1 op_qq msg1 P
              = (Inr (AdminOk Charge t (Fin A) (Fin (b + A))), P\<lparr>conn := ?T2\<rparr>)"
    using assms(1) by (simp add: cmd_charge_def c1)
  have sel2: "select_qq t ?T2 = Some (stored ?u1)"
    using key by (simp add: select_after_write[OF sel1] stored_fields)
  obtain v T3 where g2: "get_user today2 t ?T2 = (v, T3)"
    by (cases "get_user today2 t ?T2")
  have v: "v = loaded today2 (stored ?u1)"
    using get_user_loaded[OF sel2, of today2] g2 by simp
  have sel3: "select_qq t T3 = Some v"
    using get_user_stored[of t today2 ?T2] g2 by simp
  have bv: "balance v = Fin (b + A)"
    using v by (simp add: loaded_fields stored_fields)
  have nn2: "not_null_ok (v\<lparr>balance := Fin b\<rparr>)"
    using nn1 v by (simp add: not_null_ok_def loaded_def stored_def)
  have afford: "\<not> flt (Fin (b + A)) (Fin A)"
    using assms(11) by (simp add: flt_def)
  have restore: "fsub (Fin (b + A)) (Fin A) = Fin b"
    using assms(12) by (simp add: fsub_def)
  let ?T4 = "update_where t (\<lambda>x. stored (v\<lparr>balance := Fin b\<rparr>)) T3"
  have c2: "admin_op today2 op_qq msg2 Deduct ?T2
              = (Inr (AdminOk Deduct t (Fin A) (Fin b)), ?T4)"
    using admin_op_valid[OF assms(2,4,5,6) pos g2, of Deduct] nn2 bv afford restore
    by (simp add: admin_written_def)
  have P2: "cmd_deduct today2 op_qq msg2 (P\<lparr>conn := ?T2\<rparr>)
              = (Inr (AdminOk Deduct t (Fin A) (Fin b)), P\<lparr>conn := ?T4\<rparr>)"
    using assms(1) by (simp add: cmd_deduct_def c2)
  have kv: "qq v = t"
    using sel3 by (rule select_qq_key)
  have sel4: "select_qq t ?T4 = Some (stored (v\<lparr>balance := Fin b\<rparr>))"
    using kv by (simp add: select_after_write[OF sel3] stored_fields)
  show ?thesis
    by (simp add: P1 P2 sel4 stored_fields)
qed

lemmas admin_eval = cmd_charge_def cmd_deduct_def admin_op_def admin_write_def ADMIN_IDS_def
  ex_small_def

text \<open>
  The claim as stated fails: an account holds the float 0.1; after a credit of 0.2 and a
  debit of 0.2, both successful, it holds 0.10000000000000003.
\<close>

theorem credit_debit_counterexample:
  "float_of_str ''0.1'' = Some (Fin (3602879701896397 / 36028797018963968))
   \<and> map_option balance (select_qq ''20002'' (conn ex_small))
       = Some (Fin (3602879701896397 / 36028797018963968))
   \<and> fst (cmd_charge ''2024-05-01'' ''87654321'' ''credit 20002 0.2'' ex_small)
       = Inr (AdminOk Charge ''20002'' (Fin (3602879701896397 / 18014398509481984))
                (Fin (1351079888211149 / 4503599627370496)))
   \<and> fst (cmd_deduct ''2024-05-01'' ''87654321'' ''debit 20002 0.2''
             (snd (cmd_charge ''2024-05-01'' ''87654321'' ''credit 20002 0.2'' ex_small)))
       = Inr (AdminOk Deduct ''20002'' (Fin (3602879701896397 / 18014398509481984))
                (Fin (1801439850948199 / 18014398509481984)))
   \<and> map_option balance
        (select_qq ''20002''
           (conn (snd (cmd_deduct ''2024-05-01'' ''87654321'' ''debit 20002 0.2''
                    (snd (cmd_charge ''2024-05-01'' ''87654321'' ''credit 20002 0.2'' ex_small))))))
       = Some (Fin (1801439850948199 / 18014398509481984))
   \<and> Fin (1801439850948199 / 18014398509481984) \<noteq> Fin (3602879701896397 / 36028797018963968)"
proof -
  have p: "float_of_str ''0.1'' = Some (Fin (3602879701896397 / 36028797018963968))"
    "float_of_str ''0.2'' = Some (Fin (3602879701896397 / 18014398509481984))"
    by (simp_all add: str_eval float_eval)
  have s: "str_split ''credit 20002 0.2'' = [''credit'', ''20002'', ''0.2'']"
    "str_split ''debit 20002 0.2'' = [''debit'', ''20002'', ''0.2'']"
    "str_isdigit ''20002''"
    by (simp_all add: str_eval)
  have c: "cmd_charge ''2024-05-01'' ''87654321'' ''credit 20002 0.2'' ex_small
         = (Inr (AdminOk Charge ''20002'' (Fin (3602879701896397 / 18014398509481984))
                (Fin (1351079888211149 / 4503599627370496))),
            \<lparr>initialized_successfully = True,
              conn = [\<lparr>qq = ''20002'', balance = Fin (1351079888211149 / 4503599627370496),
               joined_at = None, total_time = Fin 0, today_date = ''2024-05-01'',
               today_consumption = Fin 0, discount = Fin 1\<rparr>]\<rparr>)"
    by (simp add: admin_eval p s table_eval float_eval)
  have d: "cmd_deduct ''2024-05-01'' ''87654321'' ''debit 20002 0.2''
             \<lparr>initialized_successfully = True,
              conn = [\<lparr>qq = ''20002'', balance = Fin (1351079888211149 / 4503599627370496),
               joined_at = None, total_time = Fin 0, today_date = ''2024-05-01'',
               today_consumption = Fin 0, discount = Fin 1\<rparr>]\<rparr>
         = (Inr (AdminOk Deduct ''20002'' (Fin (3602879701896397 / 18014398509481984))
                (Fin (1801439850948199 / 18014398509481984))),
            \<lparr>initialized_successfully = True,
              conn = [\<lparr>qq = ''20002'', balance = Fin (1801439850948199 / 18014398509481984),
               joined_at = None, total_time = Fin 0, today_date = ''2024-05-01'',
               today_consumption = Fin 0, discount = Fin 1\<rparr>]\<rparr>)"
    by (simp add: admin_eval p s table_eval float_eval)
  show ?thesis
    by (simp add: p c d) (simp add: ex_small_def select_qq_def)
qed


theorem credit_debit_round_trip_witness:
  "initialized_successfully ex_plugin \<and> ''87654321'' \<in> ADMIN_IDS
   \<and> str_split ''credit 10001 2.5'' = [''credit'', ''10001'', ''2.5'']
   \<and> str_split ''debit 10001 2.5'' = [''debit'', ''10001'', ''2.5'']
   \<and> str_isdigit ''10001'' \<and> float_of_str ''2.5'' = Some (Fin (5 / 2)) \<and> (0::rat) < 5 / 2
   \<and> select_qq ''10001'' (conn ex_plugin) = Some ex_row \<and> not_null_ok ex_row
   \<and> balance ex_row = Fin 10 \<and> (0::rat) \<le> 10 \<and> rnd 10 = Fin 10
   \<and> rnd (10 + 5 / 2) = Fin (10 + 5 / 2)
   \<and> fst (cmd_charge ''2024-05-01'' ''87654321'' ''credit 10001 2.5'' ex_plugin)
       = Inr (AdminOk Charge ''10001'' (Fin (5 / 2)) (Fin (25 / 2)))
   \<and> fst (cmd_deduct ''2024-05-03'' ''87654321'' ''debit 10001 2.5''
             (snd (cmd_charge ''2024-05-01'' ''87654321'' ''credit 10001 2.5'' ex_plugin)))
       = Inr (AdminOk Deduct ''10001'' (Fin (5 / 2)) (Fin 10))
   \<and> map_option balance
        (select_qq ''10001''
           (conn (snd (cmd_deduct ''2024-05-03'' ''87654321'' ''debit 10001 2.5''
                    (snd (cmd_charge ''2024-05-01'' ''87654321'' ''credit 10001 2.5'' ex_plugin))))))
       = Some (Fin 10)"
proof -
  have h1: "initialized_successfully ex_plugin" and h2: "''87654321'' \<in> ADMIN_IDS"
    by (simp_all add: ex_plugin_simps ADMIN_IDS_def)
  have h3: "str_split ''credit 10001 2.5'' = [''credit'', ''10001'', ''2.5'']"
    and h4: "str_split ''debit 10001 2.5'' = [''debit'', ''10001'', ''2.5'']"
    and h5: "str_isdigit ''10001''"
    by (simp_all add: str_eval)
  have h6: "float_of_str ''2.5'' = Some (Fin (5 / 2))"
    by (simp add: str_eval float_eval)
  have h7: "(0::rat) < 5 / 2" and h11: "(0::rat) \<le> 10"
    by simp_all
  have h8: "select_qq ''10001'' (conn ex_plugin) = Some ex_row"
    and h9: "not_null_ok ex_row" and h10: "balance ex_row = Fin 10"
    by (simp_all add: ex_plugin_simps ex_row_simps not_null_ok_def)
  have h12: "rnd 10 = Fin 10" and h13: "rnd (10 + 5 / 2) = Fin (10 + 5 / 2)"
    by (simp_all add: float_eval)
  show ?thesis
    using credit_debit_round_trip[OF h1 h2 h3 h4 h5 h6 h7 h8 h9 h10 h11 h12 h13,
            of "''2024-05-01''" "''2024-05-03''"]
          h1 h2 h3 h4 h5 h6 h8 h9 h10 h12 h13
    by simp
qed

section \<open>Setting a discount\<close>

lemma cmd_discount_valid:
  assumes "initialized_successfully P" and "op_qq \<in> ADMIN_IDS"
    and "str_split msg = [c, t, d]" and "str_isdigit t"
    and "parse_rate d = Some rate" and "flt (Fin 0) rate" and "fle rate (Fin 1)"
    and "get_user today t (conn P) = (u, T1)"
  shows "cmd_discount today op_qq msg P =
           (if not_null_ok (u\<lparr>discount := rate\<rparr>)
            then (Inr (DiscountOk t rate),
                  P\<lparr>conn := update_where t (\<lambda>x. stored (u\<lparr>discount := rate\<rparr>)) T1\<rparr>)
            else (Inl IntegrityError, P\<lparr>conn := T1\<rparr>))"
proof -
  have sel: "select_qq t T1 = Some u"
    using get_user_stored[of t today "conn P"] assms(8) by simp
  have "rate \<noteq> NaN"
    using assms(7) by auto
  then show ?thesis
    using assms
    by (simp add: cmd_discount_def Let_def update_user_loaded[OF sel] not_null_ok_def)
qed

lemma set_discount_rejects:
  assumes "initialized_successfully P" and "op_qq \<in> ADMIN_IDS"
    and "str_split msg = [c, t, d]" and "str_isdigit t"
  shows "\<forall>x. parse_rate d = Some x \<and> \<not> (flt (Fin 0) x \<and> fle x (Fin 1)) \<longrightarrow>
            cmd_discount today op_qq msg P = (Inr DiscountFormatError, P)"
  using assms by (simp add: cmd_discount_def Let_def)

lemma set_discount_accepts:
  assumes "initialized_successfully P" and "op_qq \<in> ADMIN_IDS"
    and "str_split msg = [c, t, d]" and "str_isdigit t"
  shows "\<forall>x. parse_rate d = Some x \<and> flt (Fin 0) x \<and> fle x (Fin 1)
               \<and> not_null_ok (fst (get_user today t (conn P))) \<longrightarrow>
            fst (cmd_discount today op_qq msg P) = Inr (DiscountOk t x)
          \<and> map_option discount (select_qq t (conn (snd (cmd_discount today op_qq msg P))))
              = Some x"
proof (intro conjI allI impI)
  fix x
  assume h: "parse_rate d = Some x \<and> flt (Fin 0) x \<and> fle x (Fin 1)
             \<and> not_null_ok (fst (get_user today t (conn P)))"
  obtain u T1 where g: "get_user today t (conn P) = (u, T1)"
    by (cases "get_user today t (conn P)")
  have sel: "select_qq t T1 = Some u"
    using get_user_stored[of t today "conn P"] g by simp
  have key: "qq u = t"
    using sel by (rule select_qq_key)
  have res: "cmd_discount today op_qq msg P
               = (Inr (DiscountOk t x),
                  P\<lparr>conn := update_where t (\<lambda>y. stored (u\<lparr>discount := x\<rparr>)) T1\<rparr>)"
    using cmd_discount_valid[OF assms(1,2,3,4) _ _ _ g, of x] h g
    by (auto simp: not_null_ok_def)
  show "fst (cmd_discount today op_qq msg P) = Inr (DiscountOk t x)"
    by (simp add: res)
  show "map_option discount (select_qq t (conn (snd (cmd_discount today op_qq msg P))))
          = Some x"
    using key by (simp add: res select_after_write[OF sel] stored_fields)
qed

lemma parse_rate_half:
  "parse_rate ''50%'' = Some (Fin (1 / 2))" "parse_rate ''0.5'' = Some (Fin (1 / 2))"
  by (simp_all add: str_eval float_eval)

text \<open>
  Claim C6. For an administrator's discount command with a numeric target: a rate that
  is not in \<open>(0, 1]\<close> is answered with the format error and the plugin is unchanged; a
  rate in \<open>(0, 1]\<close> is stored as the account's discount whatever the discount was
  before; and the tokens \<open>50%\<close> and \<open>0.5\<close> both store \<open>0.5\<close>. (The loaded row holds
  no NaN, as the table's NOT NULL columns guarantee.)
\<close>

theorem set_discount_validates_and_replaces:
  assumes "initialized_successfully P" and "op_qq \<in> ADMIN_IDS"
    and "str_split msg = [c, t, d]" and "str_isdigit t"
  shows "(\<forall>x. parse_rate d = Some x \<and> \<not> (flt (Fin 0) x \<and> fle x (Fin 1)) \<longrightarrow>
            cmd_discount today op_qq msg P = (Inr DiscountFormatError, P))
       \<and> (\<forall>x. parse_rate d = Some x \<and> flt (Fin 0) x \<and> fle x (Fin 1)
               \<and> not_null_ok (fst (get_user today t (conn P))) \<longrightarrow>
            fst (cmd_discount today op_qq msg P) = Inr (DiscountOk t x)
          \<and> map_option discount (select_qq t (conn (snd (cmd_discount today op_qq msg P))))
              = Some x)
       \<and> (not_null_ok (fst (get_user today t (conn P))) \<and> (d = ''50%'' \<or> d = ''0.5'') \<longrightarrow>
            fst (cmd_discount today op_qq msg P) = Inr (DiscountOk t (Fin (1 / 2)))
          \<and> map_option discount (select_qq t (conn (snd (cmd_discount today op_qq msg P))))
              = Some (Fin (1 / 2)))"
proof -
  have half: "parse_rate d = Some (Fin (1 / 2))" if "d = ''50%'' \<or> d = ''0.5''"
    using that parse_rate_half by auto
  have range: "flt (Fin 0) (Fin (1 / 2))" "fle (Fin (1 / 2)) (Fin 1)"
    by (simp_all add: flt_def)
  show ?thesis
    using set_discount_accepts[OF assms] set_discount_rejects[OF assms] half range
    by blast
qed

theorem set_discount_validates_and_replaces_witness:
  "initialized_successfully ex_plugin \<and> ''87654321'' \<in> ADMIN_IDS
   \<and> str_split ''discount 10001 50%'' = [''discount'', ''10001'', ''50%'']
   \<and> str_split ''discount 10001 0.5'' = [''discount'', ''10001'', ''0.5'']
   \<and> str_split ''discount 10001 150%'' = [''discount'', ''10001'', ''150%'']
   \<and> str_split ''discount 10001 0'' = [''discount'', ''10001'', ''0'']
   \<and> str_split ''discount 10001 -0.5'' = [''discount'', ''10001'', ''-0.5'']
   \<and> str_isdigit ''10001''
   \<and> not_null_ok (fst (get_user ''2024-05-01'' ''10001'' (conn ex_plugin)))
   \<and> parse_rate ''150%'' = Some (Fin (3 / 2)) \<and> \<not> fle (Fin (3 / 2)) (Fin 1)
   \<and> parse_rate ''0'' = Some (Fin 0) \<and> \<not> flt (Fin 0) (Fin 0)
   \<and> parse_rate ''-0.5'' = Some (Fin (- (1 / 2))) \<and> \<not> flt (Fin 0) (Fin (- (1 / 2)))
   \<and> cmd_discount ''2024-05-01'' ''87654321'' ''discount 10001 150%'' ex_plugin
       = (Inr DiscountFormatError, ex_plugin)
   \<and> cmd_discount ''2024-05-01'' ''87654321'' ''discount 10001 0'' ex_plugin
       = (Inr DiscountFormatError, ex_plugin)
   \<and> cmd_discount ''2024-05-01'' ''87654321'' ''discount 10001 -0.5'' ex_plugin
       = (Inr DiscountFormatError, ex_plugin)
   \<and> fst (cmd_discount ''2024-05-01'' ''87654321'' ''discount 10001 50%'' ex_plugin)
       = Inr (DiscountOk ''10001'' (Fin (1 / 2)))
   \<and> fst (cmd_discount ''2024-05-01'' ''87654321'' ''discount 10001 0.5'' ex_plugin)
       = Inr (DiscountOk ''10001'' (Fin (1 / 2)))
   \<and> map_option discount
        (select_qq ''10001''
           (conn (snd (cmd_discount ''2024-05-01'' ''87654321'' ''discount 10001 50%'' ex_plugin))))
       = Some (Fin (1 / 2))"
proof -
  have h1: "initialized_successfully ex_plugin" and h2: "''87654321'' \<in> ADMIN_IDS"
    by (simp_all add: ex_plugin_simps ADMIN_IDS_def)
  have s1: "str_split ''discount 10001 50%'' = [''discount'', ''10001'', ''50%'']"
    and s2: "str_split ''discount 10001 0.5'' = [''discount'', ''10001'', ''0.5'']"
    and s3: "str_split ''discount 10001 150%'' = [''discount'', ''10001'', ''150%'']"
    and s4: "str_split ''discount 10001 0'' = [''discount'', ''10001'', ''0'']"
    and s5: "str_split ''discount 10001 -0.5'' = [''discount'', ''10001'', ''-0.5'']"
    and h4: "str_isdigit ''10001''"
    by (simp_all add: str_eval)
  have n: "not_null_ok (fst (get_user ''2024-05-01'' ''10001'' (conn ex_plugin)))"
    by (simp add: get_user_existing ex_plugin_simps ex_row_simps not_null_ok_def)
  have p3: "parse_rate ''150%'' = Some (Fin (3 / 2))" and p4: "parse_rate ''0'' = Some (Fin 0)"
    and p5: "parse_rate ''-0.5'' = Some (Fin (- (1 / 2)))"
    by (simp_all add: str_eval float_eval)
  have o: "\<not> fle (Fin (3 / 2)) (Fin 1)" "\<not> flt (Fin 0) (Fin 0)" "\<not> flt (Fin 0) (Fin (- (1 / 2)))"
    by (simp_all add: flt_def)
  note t1 = set_discount_validates_and_replaces[OF h1 h2 s1 h4, of "''2024-05-01''"]
  note t2 = set_discount_validates_and_replaces[OF h1 h2 s2 h4, of "''2024-05-01''"]
  note t3 = set_discount_validates_and_replaces[OF h1 h2 s3 h4, of "''2024-05-01''"]
  note t4 = set_discount_validates_and_replaces[OF h1 h2 s4 h4, of "''2024-05-01''"]
  note t5 = set_discount_validates_and_replaces[OF h1 h2 s5 h4, of "''2024-05-01''"]
  have r3: "cmd_discount ''2024-05-01'' ''87654321'' ''discount 10001 150%'' ex_plugin
       = (Inr DiscountFormatError, ex_plugin)"
    using t3 p3 o by blast
  have r4: "cmd_discount ''2024-05-01'' ''87654321'' ''discount 10001 0'' ex_plugin
       = (Inr DiscountFormatError, ex_plugin)"
    using t4 p4 o by blast
  have r5: "cmd_discount ''2024-05-01'' ''87654321'' ''discount 10001 -0.5'' ex_plugin
       = (Inr DiscountFormatError, ex_plugin)"
    using t5 p5 o by blast
  have r1: "fst (cmd_discount ''2024-05-01'' ''87654321'' ''discount 10001 50%'' ex_plugin)
       = Inr (DiscountOk ''10001'' (Fin (1 / 2)))
     \<and> map_option discount
        (select_qq ''10001''
           (conn (snd (cmd_discount ''2024-05-01'' ''87654321'' ''discount 10001 50%'' ex_plugin))))
       = Some (Fin (1 / 2))"
    using t1 n by blast
  have r2: "fst (cmd_discount ''2024-05-01'' ''87654321'' ''discount 10001 0.5'' ex_plugin)
       = Inr (DiscountOk ''10001'' (Fin (1 / 2)))"
    using t2 n by blast
  show ?thesis
    using h1 h2 s1 s2 s3 s4 s5 h4 n p3 p4 p5 o r1 r2 r3 r4 r5 by simp
qed

section \<open>Validation of administrator commands\<close>

text \<open>
  Claim C10, at the input where the code departs from it. The amount \<open>nan\<close> is not a
  number greater than 0, yet \<open>amount <= 0\<close> is false for it: the credit passes the
  validation, \<^verbatim>\<open>_get_user\<close> creates the target's account, and the write of a NaN
  balance then raises. The discount command, which tests \<open>not (0.0 < rate <= 1.0)\<close>,
  rejects the same token and leaves the table alone.
\<close>

theorem credit_nan_creates_account:
  "select_qq ''30003'' (conn ex_plugin) = None
   \<and> float_of_str ''nan'' = Some NaN \<and> \<not> flt (Fin 0) NaN \<and> \<not> fle NaN (Fin 0)
   \<and> cmd_charge ''2024-05-01'' ''87654321'' ''credit 30003 nan'' ex_plugin
       = (Inl IntegrityError,
          \<lparr>initialized_successfully = True,
            conn = [ex_row,
                    \<lparr>qq = ''30003'', balance = Fin 0, joined_at = None, total_time = Fin 0,
                      today_date = ''2024-05-01'', today_consumption = Fin 0,
                      discount = Fin 1\<rparr>]\<rparr>)
   \<and> cmd_discount ''2024-05-01'' ''87654321'' ''discount 30003 nan'' ex_plugin
       = (Inr DiscountFormatError, ex_plugin)"
proof -
  have s: "str_split ''credit 30003 nan'' = [''credit'', ''30003'', ''nan'']"
    "str_split ''discount 30003 nan'' = [''discount'', ''30003'', ''nan'']"
    "str_isdigit ''30003''"
    by (simp_all add: str_eval)
  have p: "float_of_str ''nan'' = Some NaN" "parse_rate ''nan'' = Some NaN"
    by (simp_all add: str_eval)
  have n: "select_qq ''30003'' [ex_row] = None"
    by (simp add: select_qq_def ex_row_simps)
  have g: "get_user ''2024-05-01'' ''30003'' [ex_row]
         = (\<lparr>qq = ''30003'', balance = Fin 0, joined_at = None, total_time = Fin 0,
              today_date = ''2024-05-01'', today_consumption = Fin 0, discount = Fin 1\<rparr>,
            [ex_row] @ [\<lparr>qq = ''30003'', balance = Fin 0, joined_at = None, total_time = Fin 0,
              today_date = ''2024-05-01'', today_consumption = Fin 0, discount = Fin 1\<rparr>])"
    by (rule get_user_missing[OF n])
  have a: "''87654321'' \<in> ADMIN_IDS"
    by (simp add: ADMIN_IDS_def)
  have c: "cmd_charge ''2024-05-01'' ''87654321'' ''credit 30003 nan'' ex_plugin
       = (Inl IntegrityError,
          \<lparr>initialized_successfully = True,
            conn = [ex_row,
                    \<lparr>qq = ''30003'', balance = Fin 0, joined_at = None, total_time = Fin 0,
                      today_date = ''2024-05-01'', today_consumption = Fin 0,
                      discount = Fin 1\<rparr>]\<rparr>)"
    using admin_op_valid[OF a s(1) s(3) p(1) _ g, of Charge]
    by (simp add: cmd_charge_def ex_plugin_def admin_written_def not_null_ok_def)
  have d: "cmd_discount ''2024-05-01'' ''87654321'' ''discount 30003 nan'' ex_plugin
       = (Inr DiscountFormatError, ex_plugin)"
    by (simp add: cmd_discount_def ex_plugin_simps a s p flt_def)
  show ?thesis
    using n p c d by (simp add: ex_plugin_simps flt_def)
qed

section \<open>The ranking\<close>

lemma fle_refl: "a \<noteq> NaN \<Longrightarrow> fle a a"
  by (cases a) auto

lemma fle_total: "a \<noteq> NaN \<Longrightarrow> b \<noteq> NaN \<Longrightarrow> \<not> fle a b \<Longrightarrow> fle b a"
  by (cases a; cases b) auto

lemma fle_trans: "fle a b \<Longrightarrow> fle b c \<Longrightarrow> fle a c"
  by (cases a; cases b; cases c) auto

lemma mset_insert_desc: "mset (insert_desc x ys) = add_mset x (mset ys)"
  by (induction ys) auto

lemma set_insert_desc: "set (insert_desc x ys) = insert x (set ys)"
  by (induction ys) auto

lemma mset_order_by: "mset (order_by_balance_desc T) = mset T"
  by (induction T) (auto simp: order_by_balance_desc_def mset_insert_desc)

lemma set_order_by: "set (order_by_balance_desc T) = set T"
  using mset_order_by[of T] by (metis set_mset_mset)

lemma sorted_insert_desc:
  assumes "sorted_wrt (\<lambda>a b. fle (balance b) (balance a)) ys"
    and "balance x \<noteq> NaN" and "\<forall>y\<in>set ys. balance y \<noteq> NaN"
  shows "sorted_wrt (\<lambda>a b. fle (balance b) (balance a)) (insert_desc x ys)"
  using assms
proof (induction ys)
  case Nil
  then show ?case by simp
next
  case (Cons y ys)
  show ?case
  proof (cases "fle (balance y) (balance x)")
    case True
    have "\<forall>z\<in>set ys. fle (balance z) (balance x)"
      using Cons.prems(1) True by (auto intro: fle_trans)
    then show ?thesis
      using True Cons.prems(1) by simp
  next
    case False
    then have "fle (balance x) (balance y)"
      using Cons.prems(2,3) by (simp add: fle_total)
    then show ?thesis
      using False Cons by (auto simp: set_insert_desc)
  qed
qed

lemma sorted_order_by:
  assumes "\<forall>r\<in>set T. balance r \<noteq> NaN"
  shows "sorted_wrt (\<lambda>a b. fle (balance b) (balance a)) (order_by_balance_desc T)"
  using assms
proof (induction T)
  case Nil
  then show ?case by (simp add: order_by_balance_desc_def)
next
  case (Cons x T)
  then show ?case
    using sorted_insert_desc[of "order_by_balance_desc T" x]
    by (simp add: order_by_balance_desc_def set_order_by[unfolded order_by_balance_desc_def])
qed

lemma ties_insert_desc:
  assumes "balance x \<noteq> NaN"
  shows "filter (\<lambda>r. balance r = b) (insert_desc x ys)
           = (if balance x = b then x # filter (\<lambda>r. balance r = b) ys
              else filter (\<lambda>r. balance r = b) ys)"
  using assms by (induction ys) (auto simp: fle_refl)

lemma ties_order_by:
  assumes "\<forall>r\<in>set T. balance r \<noteq> NaN"
  shows "filter (\<lambda>r. balance r = b) (order_by_balance_desc T) = filter (\<lambda>r. balance r = b) T"
  using assms by (induction T) (auto simp: order_by_balance_desc_def ties_insert_desc)

lemma filter_take_prefix: "filter Q (take n ys) = take (length (filter Q (take n ys))) (filter Q ys)"
proof -
  have "filter Q ys = filter Q (take n ys) @ filter Q (drop n ys)"
    by (metis append_take_drop_id filter_append)
  then show ?thesis by simp
qed

lemma top_rows:
  assumes "mset ys = mset T" and "sorted_wrt (\<lambda>a b. fle (balance b) (balance a)) ys"
  shows "length (take n ys) = min n (length T)
       \<and> sorted_wrt (\<lambda>a b. fle (balance b) (balance a)) (take n ys)
       \<and> mset (take n ys) \<subseteq># mset T
       \<and> (\<forall>x\<in>#mset T - mset (take n ys). \<forall>y\<in>set (take n ys). fle (balance x) (balance y))"
proof -
  have len: "length ys = length T"
    using assms(1) by (metis size_mset)
  have split: "mset T = mset (take n ys) + mset (drop n ys)"
    using assms(1) by (metis append_take_drop_id mset_append)
  have rest: "mset T - mset (take n ys) = mset (drop n ys)"
    by (simp add: split)
  have "sorted_wrt (\<lambda>a b. fle (balance b) (balance a)) (take n ys @ drop n ys)"
    using assms(2) by simp
  then have cut: "\<forall>y\<in>set (take n ys). \<forall>x\<in>set (drop n ys). fle (balance x) (balance y)"
    and st: "sorted_wrt (\<lambda>a b. fle (balance b) (balance a)) (take n ys)"
    unfolding sorted_wrt_append by blast+
  show ?thesis
    using len st cut by (auto simp: rest split)
qed

text \<open>
  Claim C8. The ranking lists the accounts of the ten highest balances, or all accounts
  when there are fewer: its rows are rows of the table, as many as the smaller of 10 and
  the number of accounts (exactly 10 for 15 accounts), in descending order of balance,
  and no account left out has a higher balance than a listed one. Accounts with equal
  balances are listed in the order in which the table holds them, the order of their
  insertion: an order that owes nothing to the identities and is the same at every call
  on the same table, the reply being a function of the table. (The balances of a table
  are no NaN, as its NOT NULL column guarantees.)
\<close>

theorem rank_top_ten:
  assumes "initialized_successfully P" and "\<forall>r\<in>set (conn P). balance r \<noteq> NaN"
  shows "\<exists>rows. cmd_rank P = (if conn P = [] then RankEmpty
                               else Rank (map (\<lambda>r. (qq r, balance r)) rows))
           \<and> length rows = min 10 (length (conn P))
           \<and> (length (conn P) = 15 \<longrightarrow> length rows = 10)
           \<and> sorted_wrt (\<lambda>a b. fle (balance b) (balance a)) rows
           \<and> mset rows \<subseteq># mset (conn P)
           \<and> (\<forall>x\<in>#mset (conn P) - mset rows. \<forall>y\<in>set rows. fle (balance x) (balance y))
           \<and> (\<forall>b. \<exists>k. filter (\<lambda>r. balance r = b) rows
                          = take k (filter (\<lambda>r. balance r = b) (conn P)))"
proof -
  let ?ys = "order_by_balance_desc (conn P)"
  let ?rows = "take 10 ?ys"
  have m: "mset ?ys = mset (conn P)"
    by (rule mset_order_by)
  have s: "sorted_wrt (\<lambda>a b. fle (balance b) (balance a)) ?ys"
    using assms(2) by (rule sorted_order_by)
  note top = top_rows[OF m s, of 10]
  have "?ys = [] \<longleftrightarrow> conn P = []"
    using m by (metis mset_zero_iff)
  then have empty: "?rows = [] \<longleftrightarrow> conn P = []"
    by simp
  have reply: "cmd_rank P = (if conn P = [] then RankEmpty
                             else Rank (map (\<lambda>r. (qq r, balance r)) ?rows))"
    using assms(1) empty by (simp add: cmd_rank_def Let_def)
  have ties: "\<exists>k. filter (\<lambda>r. balance r = b) ?rows
                    = take k (filter (\<lambda>r. balance r = b) (conn P))" for b
    using filter_take_prefix[of "\<lambda>r. balance r = b" 10 ?ys] ties_order_by[OF assms(2), of b]
    by metis
  show ?thesis
    using reply top ties by (intro exI[of _ ?rows]) auto
qed

lemma acct_simps:
  "qq (acct q b) = q" "balance (acct q b) = Fin b"
  by (simp_all add: acct_def)

lemma rank_fifteen:
  "cmd_rank ex_fifteen
     = Rank [(''1015'', Fin 15), (''1014'', Fin 14), (''1013'', Fin 13), (''1012'', Fin 12),
             (''1011'', Fin 11), (''1010'', Fin 10), (''1009'', Fin 9), (''1008'', Fin 8),
             (''1007'', Fin 7), (''1006'', Fin 6)]"
  by (simp add: cmd_rank_def ex_fifteen_def order_by_balance_desc_def acct_simps Let_def)

lemma rank_ties:
  "cmd_rank ex_ties = Rank [(''1003'', Fin 8), (''1002'', Fin 5), (''1001'', Fin 5)]"
  by (simp add: cmd_rank_def ex_ties_def order_by_balance_desc_def acct_simps Let_def)

theorem rank_top_ten_witness:
  "initialized_successfully ex_fifteen \<and> list_all (\<lambda>r. balance r \<noteq> NaN) (conn ex_fifteen)
   \<and> length (conn ex_fifteen) = 15
   \<and> initialized_successfully ex_ties \<and> list_all (\<lambda>r. balance r \<noteq> NaN) (conn ex_ties)
   \<and> cmd_rank ex_fifteen
       = Rank [(''1015'', Fin 15), (''1014'', Fin 14), (''1013'', Fin 13), (''1012'', Fin 12),
               (''1011'', Fin 11), (''1010'', Fin 10), (''1009'', Fin 9), (''1008'', Fin 8),
               (''1007'', Fin 7), (''1006'', Fin 6)]
   \<and> (\<exists>rows :: user_row list. cmd_rank ex_fifteen = Rank (map (\<lambda>r. (qq r, balance r)) rows)
             \<and> length rows = 10)
   \<and> cmd_rank ex_ties = Rank [(''1003'', Fin 8), (''1002'', Fin 5), (''1001'', Fin 5)]
   \<and> (\<exists>rows k. cmd_rank ex_ties = Rank (map (\<lambda>r. (qq r, balance r)) rows)
             \<and> filter (\<lambda>r. balance r = Fin 5) rows
                 = take k [acct ''1002'' 5, acct ''1001'' 5])"
proof -
  have i: "initialized_successfully ex_fifteen" and l: "length (conn ex_fifteen) = 15"
    and n: "\<forall>r\<in>set (conn ex_fifteen). balance r \<noteq> NaN"
    and ne: "conn ex_fifteen \<noteq> []"
    by (simp_all add: ex_fifteen_def acct_def)
  have i2: "initialized_successfully ex_ties"
    and n2: "\<forall>r\<in>set (conn ex_ties). balance r \<noteq> NaN"
    and ne2: "conn ex_ties \<noteq> []"
    and f2: "filter (\<lambda>r. balance r = Fin 5) (conn ex_ties) = [acct ''1002'' 5, acct ''1001'' 5]"
    by (simp_all add: ex_ties_def acct_def)
  have a: "\<exists>rows :: user_row list. cmd_rank ex_fifteen = Rank (map (\<lambda>r. (qq r, balance r)) rows)
             \<and> length rows = 10"
    using rank_top_ten[OF i n]
  proof (elim exE conjE)
    fix rows :: "user_row list"
    assume "cmd_rank ex_fifteen = (if conn ex_fifteen = [] then RankEmpty
                                   else Rank (map (\<lambda>r. (qq r, balance r)) rows))"
      and "length (conn ex_fifteen) = 15 \<longrightarrow> length rows = 10"
    then have "cmd_rank ex_fifteen = Rank (map (\<lambda>r. (qq r, balance r)) rows)
                 \<and> length rows = 10"
      using ne l by simp
    then show ?thesis by (rule exI)
  qed
  have b: "\<exists>rows k. cmd_rank ex_ties = Rank (map (\<lambda>r. (qq r, balance r)) rows)
             \<and> filter (\<lambda>r. balance r = Fin 5) rows
                 = take k [acct ''1002'' 5, acct ''1001'' 5]"
    using rank_top_ten[OF i2 n2]
  proof (elim exE conjE)
    fix rows :: "user_row list"
    assume c: "cmd_rank ex_ties = (if conn ex_ties = [] then RankEmpty
                                else Rank (map (\<lambda>r. (qq r, balance r)) rows))"
      and t: "\<forall>b. \<exists>k. filter (\<lambda>r. balance r = b) rows
                = take k (filter (\<lambda>r. balance r = b) (conn ex_ties))"
    from t obtain k where "filter (\<lambda>r. balance r = Fin 5) rows
                = take k (filter (\<lambda>r. balance r = Fin 5) (conn ex_ties))"
      by blast
    then have "cmd_rank ex_ties = Rank (map (\<lambda>r. (qq r, balance r)) rows)
          \<and> filter (\<lambda>r. balance r = Fin 5) rows = take k [acct ''1002'' 5, acct ''1001'' 5]"
      using c ne2 f2 by simp
    then show ?thesis by blast
  qed
  have "list_all (\<lambda>r. balance r \<noteq> NaN) (conn ex_fifteen)"
    "list_all (\<lambda>r. balance r \<noteq> NaN) (conn ex_ties)"
    using n n2 by (simp_all add: list_all_iff)
  then show ?thesis
    using i l i2 a b rank_fifteen rank_ties by simp
qed


section \<open>Two check-outs of one account\<close>

lemma leave_twice:
  assumes "initialized_successfully P" and "uid \<noteq> []"
    and "select_qq uid (conn P) = Some r" and "joined_at r = Some j"
    and "\<not> fle (fsub now1 j) GRACE_PERIOD_SECONDS"
    and "final_fee (fsub now1 j) (discount r) = Inr fee"
    and "\<not> flt (balance r) fee"
    and "not_null_ok (charged (loaded today1 r) fee (fsub now1 j))"
  shows "fst (cmd_leave today1 now1 uid P)
           = Inr (LeaveOk (fsub now1 j) fee
                    (fadd (today_consumption (loaded today1 r)) fee) (fsub (balance r) fee))
       \<and> fst (cmd_leave today2 now2 uid (snd (cmd_leave today1 now1 uid P))) = Inr NotAttending
       \<and> map_option balance
           (select_qq uid (conn (snd (cmd_leave today2 now2 uid
                                        (snd (cmd_leave today1 now1 uid P))))))
           = Some (fsub (balance r) fee)"
proof -
  obtain u T1 where g: "get_user today1 uid (conn P) = (u, T1)"
    by (cases "get_user today1 uid (conn P)")
  have u: "u = loaded today1 r"
    using get_user_loaded[OF assms(3), of today1] g by simp
  have sel: "select_qq uid T1 = Some u"
    using get_user_stored[of uid today1 "conn P"] g by simp
  have key: "qq u = uid"
    using sel by (rule select_qq_key)
  have ju: "joined_at u = Some j"
    using assms(4) u by (simp add: loaded_fields)
  have nn: "not_null_ok (u\<lparr>balance := fsub (balance u) fee,
              today_consumption := fadd (today_consumption u) fee,
              total_time := fadd (total_time u) (fsub now1 j)\<rparr>)"
    using assms(8) u by (simp add: charged_def not_null_ok_def)
  let ?T2 = "update_where uid (\<lambda>x. charged u fee (fsub now1 j)) T1"
  have first: "cmd_leave today1 now1 uid P
         = (Inr (LeaveOk (fsub now1 j) fee (fadd (today_consumption u) fee) (fsub (balance u) fee)),
            P\<lparr>conn := ?T2\<rparr>)"
    using cmd_leave_loaded[OF assms(1,2) g ju, of now1] assms(5,6,7) nn u
    by (simp add: loaded_fields charged_def)
  have sel2: "select_qq uid ?T2 = Some (charged u fee (fsub now1 j))"
    using key by (simp add: select_after_write[OF sel] charged_def)
  obtain v T3 where g2: "get_user today2 uid ?T2 = (v, T3)"
    by (cases "get_user today2 uid ?T2")
  have v: "v = loaded today2 (charged u fee (fsub now1 j))"
    using get_user_loaded[OF sel2, of today2] g2 by simp
  have sel3: "select_qq uid T3 = Some v"
    using get_user_stored[of uid today2 ?T2] g2 by simp
  have idle: "joined_at v = None"
    using v by (simp add: loaded_fields charged_def)
  have second: "cmd_leave today2 now2 uid (P\<lparr>conn := ?T2\<rparr>) = (Inr NotAttending, P\<lparr>conn := T3\<rparr>)"
    using assms(1,2) g2 idle by (simp add: cmd_leave_def)
  have bv: "balance v = fsub (balance r) fee"
    using v u by (simp add: loaded_fields charged_def)
  have bu: "balance u = balance r"
    and tu: "today_consumption u = today_consumption (loaded today1 r)"
    using u by (simp_all add: loaded_fields)
  show ?thesis
    by (simp add: first second sel3 bv bu tu)
qed

text \<open>
  Claim C3, amended. No handler is suspended between its load and its write, so two
  check-outs of the same account that arrive together are handled one after the other,
  in one order or the other. For a checked-in account, past the grace period, whose
  balance covers the fee: in either order the first check-out succeeds and debits its
  fee, and the second finds the account idle, replies that the user is not checked in
  (not that the balance is insufficient) and debits nothing. The balance is debited once.
\<close>

theorem checkouts_debit_once:
  assumes "initialized_successfully P" and "uid \<noteq> []"
    and "select_qq uid (conn P) = Some r" and "joined_at r = Some j"
    and "\<not> fle (fsub nowA j) GRACE_PERIOD_SECONDS"
    and "\<not> fle (fsub nowB j) GRACE_PERIOD_SECONDS"
    and "final_fee (fsub nowA j) (discount r) = Inr feeA"
    and "final_fee (fsub nowB j) (discount r) = Inr feeB"
    and "\<not> flt (balance r) feeA" and "\<not> flt (balance r) feeB"
    and "not_null_ok (charged (loaded today r) feeA (fsub nowA j))"
    and "not_null_ok (charged (loaded today r) feeB (fsub nowB j))"
  shows "fst (cmd_leave today nowA uid P)
           = Inr (LeaveOk (fsub nowA j) feeA
                    (fadd (today_consumption (loaded today r)) feeA) (fsub (balance r) feeA))
       \<and> fst (cmd_leave today nowB uid (snd (cmd_leave today nowA uid P))) = Inr NotAttending
       \<and> map_option balance
           (select_qq uid (conn (snd (cmd_leave today nowB uid
                                        (snd (cmd_leave today nowA uid P))))))
           = Some (fsub (balance r) feeA)
       \<and> fst (cmd_leave today nowB uid P)
           = Inr (LeaveOk (fsub nowB j) feeB
                    (fadd (today_consumption (loaded today r)) feeB) (fsub (balance r) feeB))
       \<and> fst (cmd_leave today nowA uid (snd (cmd_leave today nowB uid P))) = Inr NotAttending
       \<and> map_option balance
           (select_qq uid (conn (snd (cmd_leave today nowA uid
                                        (snd (cmd_leave today nowB uid P))))))
           = Some (fsub (balance r) feeB)"
  using leave_twice[OF assms(1,2,3,4,5,7,9,11), of today nowB]
        leave_twice[OF assms(1,2,3,4,6,8,10,12), of today nowA]
  by simp

lemma ex_once_simps:
  "initialized_successfully ex_once"
  "select_qq ''40004'' (conn ex_once)
     = Some \<lparr>qq = ''40004'', balance = Fin 4, joined_at = Some (Fin 1000),
              total_time = Fin 0, today_date = ''2024-05-01'', today_consumption = Fin 0,
              discount = Fin (1 / 2)\<rparr>"
  by (simp_all add: ex_once_def select_qq_def)

text \<open>
  The claim as stated fails. The balance of 4 covers one fee of 3 and not two. Of two
  check-outs, in either order, the first succeeds and the second is refused because the
  account is no longer checked in: no reply is the insufficient-balance failure.
\<close>

theorem simultaneous_checkouts_counterexample:
  "map_option balance (select_qq ''40004'' (conn ex_once)) = Some (Fin 4)
   \<and> final_fee (fsub (Fin 3000) (Fin 1000)) (Fin (1 / 2)) = Inr (Fin 3)
   \<and> final_fee (fsub (Fin 3005) (Fin 1000)) (Fin (1 / 2)) = Inr (Fin 3)
   \<and> fle (Fin 3) (Fin 4) \<and> flt (Fin 4) (fadd (Fin 3) (Fin 3))
   \<and> fst (cmd_leave ''2024-05-01'' (Fin 3000) ''40004'' ex_once)
       = Inr (LeaveOk (Fin 2000) (Fin 3) (Fin 3) (Fin 1))
   \<and> fst (cmd_leave ''2024-05-01'' (Fin 3005) ''40004''
             (snd (cmd_leave ''2024-05-01'' (Fin 3000) ''40004'' ex_once)))
       = Inr NotAttending
   \<and> fst (cmd_leave ''2024-05-01'' (Fin 3005) ''40004'' ex_once)
       = Inr (LeaveOk (Fin 2005) (Fin 3) (Fin 3) (Fin 1))
   \<and> fst (cmd_leave ''2024-05-01'' (Fin 3000) ''40004''
             (snd (cmd_leave ''2024-05-01'' (Fin 3005) ''40004'' ex_once)))
       = Inr NotAttending"
proof -
  have f: "final_fee (fsub (Fin 3000) (Fin 1000)) (Fin (1 / 2)) = Inr (Fin 3)"
    "final_fee (fsub (Fin 3005) (Fin 1000)) (Fin (1 / 2)) = Inr (Fin 3)"
    by (simp_all add: leave_eval float_eval)
  have c: "fle (Fin 3) (Fin 4)" "flt (Fin 4) (fadd (Fin 3) (Fin 3))"
    by (simp_all add: float_eval)
  have a: "cmd_leave ''2024-05-01'' (Fin 3000) ''40004'' ex_once
         = (Inr (LeaveOk (Fin 2000) (Fin 3) (Fin 3) (Fin 1)),
            \<lparr>initialized_successfully = True,
              conn = [\<lparr>qq = ''40004'', balance = Fin 1, joined_at = None,
                       total_time = Fin 2000, today_date = ''2024-05-01'',
                       today_consumption = Fin 3, discount = Fin (1 / 2)\<rparr>]\<rparr>)"
    by (simp add: leave_eval table_eval float_eval ex_once_def)
  have b: "cmd_leave ''2024-05-01'' (Fin 3005) ''40004'' ex_once
         = (Inr (LeaveOk (Fin 2005) (Fin 3) (Fin 3) (Fin 1)),
            \<lparr>initialized_successfully = True,
              conn = [\<lparr>qq = ''40004'', balance = Fin 1, joined_at = None,
                       total_time = Fin 2005, today_date = ''2024-05-01'',
                       today_consumption = Fin 3, discount = Fin (1 / 2)\<rparr>]\<rparr>)"
    by (simp add: leave_eval table_eval float_eval ex_once_def)
  have a2: "fst (cmd_leave ''2024-05-01'' (Fin 3005) ''40004''
            \<lparr>initialized_successfully = True,
              conn = [\<lparr>qq = ''40004'', balance = Fin 1, joined_at = None,
                       total_time = Fin 2000, today_date = ''2024-05-01'',
                       today_consumption = Fin 3, discount = Fin (1 / 2)\<rparr>]\<rparr>)
         = Inr NotAttending"
    by (simp add: leave_eval table_eval)
  have b2: "fst (cmd_leave ''2024-05-01'' (Fin 3000) ''40004''
            \<lparr>initialized_successfully = True,
              conn = [\<lparr>qq = ''40004'', balance = Fin 1, joined_at = None,
                       total_time = Fin 2005, today_date = ''2024-05-01'',
                       today_consumption = Fin 3, discount = Fin (1 / 2)\<rparr>]\<rparr>)
         = Inr NotAttending"
    by (simp add: leave_eval table_eval)
  show ?thesis
    using f c by (simp add: a b a2 b2 ex_once_simps)
qed

theorem checkouts_debit_once_witness:
  "initialized_successfully ex_once \<and> ''40004'' \<noteq> []
   \<and> select_qq ''40004'' (conn ex_once)
       = Some \<lparr>qq = ''40004'', balance = Fin 4, joined_at = Some (Fin 1000),
                total_time = Fin 0, today_date = ''2024-05-01'', today_consumption = Fin 0,
                discount = Fin (1 / 2)\<rparr>
   \<and> \<not> fle (fsub (Fin 3000) (Fin 1000)) GRACE_PERIOD_SECONDS
   \<and> \<not> fle (fsub (Fin 3005) (Fin 1000)) GRACE_PERIOD_SECONDS
   \<and> final_fee (fsub (Fin 3000) (Fin 1000)) (Fin (1 / 2)) = Inr (Fin 3)
   \<and> final_fee (fsub (Fin 3005) (Fin 1000)) (Fin (1 / 2)) = Inr (Fin 3)
   \<and> \<not> flt (Fin 4) (Fin 3)
   \<and> fst (cmd_leave ''2024-05-01'' (Fin 3005) ''40004''
             (snd (cmd_leave ''2024-05-01'' (Fin 3000) ''40004'' ex_once)))
       = Inr NotAttending
   \<and> map_option balance
        (select_qq ''40004''
           (conn (snd (cmd_leave ''2024-05-01'' (Fin 3005) ''40004''
                    (snd (cmd_leave ''2024-05-01'' (Fin 3000) ''40004'' ex_once))))))
       = Some (Fin 1)
   \<and> fst (cmd_leave ''2024-05-01'' (Fin 3000) ''40004''
             (snd (cmd_leave ''2024-05-01'' (Fin 3005) ''40004'' ex_once)))
       = Inr NotAttending
   \<and> map_option balance
        (select_qq ''40004''
           (conn (snd (cmd_leave ''2024-05-01'' (Fin 3000) ''40004''
                    (snd (cmd_leave ''2024-05-01'' (Fin 3005) ''40004'' ex_once))))))
       = Some (Fin 1)"
proof -
  let ?r = "\<lparr>qq = ''40004'', balance = Fin 4, joined_at = Some (Fin 1000),
              total_time = Fin 0, today_date = ''2024-05-01'', today_consumption = Fin 0,
              discount = Fin (1 / 2)\<rparr>"
  have h: "initialized_successfully ex_once" "''40004'' \<noteq> []"
    "select_qq ''40004'' (conn ex_once) = Some ?r" "joined_at ?r = Some (Fin 1000)"
    by (simp_all add: ex_once_simps)
  have r: "rnd 2000 = Fin 2000" "rnd 2005 = Fin 2005" "rnd 3 = Fin 3" "rnd 1 = Fin 1"
    by (simp_all add: float_eval)
  have g: "\<not> fle (fsub (Fin 3000) (Fin 1000)) GRACE_PERIOD_SECONDS"
    "\<not> fle (fsub (Fin 3005) (Fin 1000)) GRACE_PERIOD_SECONDS"
    by (simp_all add: fsub_def r GRACE_PERIOD_SECONDS_def)
  have f: "final_fee (fsub (Fin 3000) (Fin 1000)) (discount ?r) = Inr (Fin 3)"
    "final_fee (fsub (Fin 3005) (Fin 1000)) (discount ?r) = Inr (Fin 3)"
    by (simp_all add: leave_eval float_eval)
  have l: "\<not> flt (balance ?r) (Fin 3)"
    by (simp add: flt_def)
  have n: "not_null_ok (charged (loaded ''2024-05-01'' ?r) (Fin 3) (fsub (Fin 3000) (Fin 1000)))"
    "not_null_ok (charged (loaded ''2024-05-01'' ?r) (Fin 3) (fsub (Fin 3005) (Fin 1000)))"
    by (simp_all add: not_null_ok_def charged_def loaded_def fsub_def r)
  have b1: "fsub (balance ?r) (Fin 3) = Fin 1"
    by (simp add: fsub_def r)
  note t = checkouts_debit_once[OF h g f l l n]
  show ?thesis
    using t h g f l b1 by simp
qed

end
